theory Spec2Isabelle
  imports Complex_Main
begin

section \<open>Numbers, errors and numpy helpers\<close>

text \<open>
  The notebook computes with numpy float64 values. They are modelled by exact reals; the one
  place where exact arithmetic and IEEE arithmetic differ in kind, a division whose divisor is
  exactly zero, is written out: numpy does not raise there, it emits a RuntimeWarning and
  yields an infinity (non-zero dividend) or nan (zero dividend). \<open>DivByZero x\<close> stands for
  the value of \<open>x / 0\<close> so obtained.
\<close>

datatype error =
  TypeError | IndexError | ValueError | ZeroDivisionError | LinAlgError | OverflowError

datatype npfloat = Finite real | DivByZero real

definition np_divide :: "real \<Rightarrow> real \<Rightarrow> npfloat" where
  "np_divide x y = (if y = 0 then DivByZero x else Finite (x / y))"

text \<open>\<open>q < c\<close> for a finite \<open>c\<close>: \<open>+inf < c\<close> and \<open>nan < c\<close> are false, \<open>-inf < c\<close> is true.\<close>

definition np_less :: "npfloat \<Rightarrow> real \<Rightarrow> bool" where
  "np_less q c = (case q of Finite r \<Rightarrow> r < c | DivByZero x \<Rightarrow> x < 0)"

text \<open>\<open>np.linalg.norm\<close> of a one-dimensional array.\<close>

definition norm2 :: "real list \<Rightarrow> real" where
  "norm2 v = sqrt (sum_list (map (\<lambda>x. x ^ 2) v))"

text \<open>
  Subtraction of two one-dimensional arrays with numpy's broadcasting: equal lengths, or one
  operand of length one; any other pair of shapes raises ValueError.
\<close>

definition np_sub :: "real list \<Rightarrow> real list \<Rightarrow> error + real list" where
  "np_sub xs ys =
     (if length xs = length ys then Inr (map2 (\<lambda>x y. x - y) xs ys)
      else if length xs = 1 then Inr (map (\<lambda>y. hd xs - y) ys)
      else if length ys = 1 then Inr (map (\<lambda>x. x - hd ys) xs)
      else Inl ValueError)"

text \<open>Python indexing of a sequence by an integer: negative indices count from the end.\<close>

definition np_index :: "'a list \<Rightarrow> int \<Rightarrow> error + 'a" where
  "np_index xs i =
     (let len = int (length xs); j = (if i < 0 then len + i else i)
      in if 0 \<le> j \<and> j < len then Inr (xs ! nat j) else Inl IndexError)"

text \<open>\<open>xs[-k:]\<close>: the last \<open>k\<close> entries, all of them when there are fewer.\<close>

definition last_n :: "nat \<Rightarrow> 'a list \<Rightarrow> 'a list" where
  "last_n k xs = drop (length xs - k) xs"

section \<open>Polynomial fits and sampled curves\<close>

text \<open>
  \<open>np.polyfit(y, x, 2)\<close> always returns exactly three coefficients, highest power first; a
  fit is the triple \<open>(fit[0], fit[1], fit[2])\<close>. A sampled curve is the array of x values of a
  fit at the rows \<open>ploty\<close>.
\<close>

type_synonym fit = "real \<times> real \<times> real"

definition polyval :: "fit \<Rightarrow> real \<Rightarrow> real" where
  "polyval f y = (case f of (a, b, c) \<Rightarrow> a * y ^ 2 + b * y + c)"

text \<open>\<open>np.linspace(0, H - 1, H)\<close>: the rows \<open>0, 1, ..., H - 1\<close>.\<close>

definition ploty :: "nat \<Rightarrow> real list" where
  "ploty H = map real [0..<H]"

text \<open>\<open>np.max\<close> raises ValueError on an empty array.\<close>

definition np_max :: "real list \<Rightarrow> error + real" where
  "np_max xs = (case xs of [] \<Rightarrow> Inl ValueError | x # r \<Rightarrow> Inr (fold max r x))"

text \<open>
  \<open>np.average(np.array(fits), 0)\<close>: the mean of each coefficient. The notebook only calls it
  on a non-empty history (after an append, or under \<open>len(...) > 0\<close>).
\<close>

definition average_fits :: "fit list \<Rightarrow> fit" where
  "average_fits fs =
     (sum_list (map fst fs) / real (length fs),
      sum_list (map (\<lambda>f. fst (snd f)) fs) / real (length fs),
      sum_list (map (\<lambda>f. snd (snd f)) fs) / real (length fs))"

text \<open>
  \<open>np.average(np.asarray(curves), 0)\<close>: the pointwise mean of equally long curves, again
  only called on a non-empty history.
\<close>

definition average_curves :: "real list list \<Rightarrow> real list" where
  "average_curves rows =
     (case rows of
        [] \<Rightarrow> []
      | r # _ \<Rightarrow> map (\<lambda>i. sum_list (map (\<lambda>row. row ! i) rows) / real (length rows))
                     [0..<length r])"

section \<open>The Line class\<close>

text \<open>\<open>n = 15\<close>, the number of historic data cells, and the module constants.\<close>

definition n_cells :: nat where
  "n_cells = 15"

definition max_distance :: real where
  "max_distance = 2.8"

definition max_rel_fitx :: real where
  "max_rel_fitx = 0.15"

definition n_avg :: nat where
  "n_avg = 8"

definition ym_per_pix :: real where
  "ym_per_pix = 30 / 720"

definition xm_per_pix :: real where
  "xm_per_pix = 3.7 / 700"

text \<open>
  \<open>collections.deque(maxlen = m)\<close>: \<open>append\<close> adds on the right and, when that makes the
  deque longer than \<open>m\<close>, removes the leftmost (oldest) entry; \<open>pop\<close> removes the rightmost
  entry and raises IndexError on an empty deque.
\<close>

definition deque_append :: "nat \<Rightarrow> 'a list \<Rightarrow> 'a \<Rightarrow> 'a list" where
  "deque_append m d x = (let d' = d @ [x] in if length d' > m then tl d' else d')"

definition deque_pop :: "'a list \<Rightarrow> error + 'a list" where
  "deque_pop d = (case d of [] \<Rightarrow> Inl IndexError | _ # _ \<Rightarrow> Inr (butlast d))"

text \<open>
  The fields of \<open>Line\<close>. \<open>None\<close> is Python's \<open>None\<close>; for \<open>current_fit\<close> it stands for the
  placeholder \<open>[np.array([False])]\<close> the constructor stores.
\<close>

record Line =
  detected :: bool
  recent_xfitted :: "real list list"
  bestx :: "real list option"
  recent_fits :: "fit list"
  best_fit :: "fit option"
  current_fit :: "fit option"
  radius_of_curvature :: "npfloat option"
  line_base_pos :: "real option"
  diffs :: "real list"
  allx :: "nat list option"
  ally :: "nat list option"

definition Line_init :: Line where
  "Line_init =
     \<lparr>detected = False, recent_xfitted = [], bestx = None, recent_fits = [], best_fit = None,
      current_fit = None, radius_of_curvature = None, line_base_pos = None,
      diffs = [0, 0, 0], allx = None, ally = None\<rparr>"

section \<open>find_lanes: updating one lane\<close>

text \<open>
  The two update blocks of \<open>find_lanes\<close> (right lane first, then left lane) are the same text
  up to the row at which the new fit is evaluated for the distance test: the right block uses
  \<open>y_eval\<close>, the left block the literal \<open>720.0\<close>. \<open>update_line\<close> is that block with the row as
  its first argument. It returns the lane together with the local variables \<open>fit\<close> and
  \<open>fitx\<close>, which the block reassigns in its \<open>else\<close> part.
\<close>

definition validation_base_pos :: "fit \<Rightarrow> real \<Rightarrow> real" where
  "validation_base_pos f y = (polyval f y - 640) * 3.7 / 600"

definition seed_line :: "fit \<Rightarrow> real list \<Rightarrow> Line \<Rightarrow> Line" where
  "seed_line f fx L =
     L\<lparr>detected := True,
       recent_xfitted := deque_append n_cells (recent_xfitted L) fx,
       recent_fits := deque_append n_cells (recent_fits L) f,
       current_fit := Some f,
       best_fit := Some f,
       bestx := Some fx\<rparr>"

definition accept_line :: "fit \<Rightarrow> real list \<Rightarrow> Line \<Rightarrow> Line" where
  "accept_line f fx L =
     (let xf = deque_append n_cells (recent_xfitted L) fx;
          rf = deque_append n_cells (recent_fits L) f
      in L\<lparr>detected := True,
           recent_xfitted := xf,
           bestx := Some (average_curves xf),
           recent_fits := rf,
           best_fit := Some (average_fits rf),
           current_fit := Some f\<rparr>)"

definition reject_line :: "Line \<Rightarrow> error + Line" where
  "reject_line L =
     (case deque_pop (recent_fits L) of
        Inl e \<Rightarrow> Inl e
      | Inr rf \<Rightarrow>
          (case deque_pop (recent_xfitted L) of
             Inl e \<Rightarrow> Inl e
           | Inr xf \<Rightarrow>
               (let L1 = L\<lparr>detected := False, recent_fits := rf, recent_xfitted := xf\<rparr>
                in if length rf > 0
                   then Inr (L1\<lparr>bestx := Some (average_curves (last_n n_avg xf)),
                                best_fit := Some (average_fits (last_n n_avg rf)),
                                current_fit := Some (average_fits (last_n n_avg rf))\<rparr>)
                   else Inr L1)))"

text \<open>The acceptance test of a lane that has a history, on the values the block computes.\<close>

definition passes :: "real \<Rightarrow> npfloat \<Rightarrow> bool" where
  "passes base_pos rel_diff \<longleftrightarrow> \<bar>base_pos\<bar> \<le> max_distance \<and> np_less rel_diff max_rel_fitx"

definition update_line ::
  "real \<Rightarrow> real list \<Rightarrow> fit \<Rightarrow> real list \<Rightarrow> nat list \<Rightarrow> nat list \<Rightarrow> Line
     \<Rightarrow> error + (Line \<times> fit \<times> real list)" where
  "update_line y_base py f fx xs ys L =
     (if length (recent_fits L) = 0 then Inr (seed_line f fx L, f, fx)
      else
        (case bestx L of
           None \<Rightarrow> Inl TypeError
         | Some bx \<Rightarrow>
             (case np_sub fx bx of
                Inl e \<Rightarrow> Inl e
              | Inr d \<Rightarrow>
                  (let L1 = L\<lparr>line_base_pos := Some (validation_base_pos f y_base), diffs := d\<rparr>;
                       rel_diff = np_divide (norm2 d) (norm2 bx)
                   in case (if passes (validation_base_pos f y_base) rel_diff
                            then Inr (accept_line f fx L1) else reject_line L1) of
                        Inl e \<Rightarrow> Inl e
                      | Inr L2 \<Rightarrow>
                          (let L3 = L2\<lparr>allx := Some xs, ally := Some ys\<rparr>
                           in case best_fit L3 of
                                None \<Rightarrow> Inl TypeError
                              | Some bf \<Rightarrow> Inr (L3, bf, map (polyval bf) py))))))"

definition update_right ::
  "real \<Rightarrow> real list \<Rightarrow> fit \<Rightarrow> real list \<Rightarrow> nat list \<Rightarrow> nat list \<Rightarrow> Line
     \<Rightarrow> error + (Line \<times> fit \<times> real list)" where
  "update_right y_eval py f fx xs ys L = update_line y_eval py f fx xs ys L"

definition update_left ::
  "real \<Rightarrow> real list \<Rightarrow> fit \<Rightarrow> real list \<Rightarrow> nat list \<Rightarrow> nat list \<Rightarrow> Line
     \<Rightarrow> error + (Line \<times> fit \<times> real list)" where
  "update_left y_eval py f fx xs ys L = update_line 720 py f fx xs ys L"

section \<open>find_lanes: the sliding-window search\<close>

text \<open>
  The mask \<open>binary_warped\<close> (after the grey-scale conversion; \<open>bw\<close> below) is a rectangular
  array of pixel values, a list of rows. \<open>shape[0]\<close> is the number of rows, \<open>shape[1]\<close> the row length.
\<close>

definition n_rows :: "nat list list \<Rightarrow> nat" where
  "n_rows bw = length bw"

definition n_cols :: "nat list list \<Rightarrow> nat" where
  "n_cols bw = (case bw of [] \<Rightarrow> 0 | r # _ \<Rightarrow> length r)"

text \<open>\<open>np.sum(binary_warped[int(shape[0]/2):, :], axis=0)\<close>: the column sums of the bottom half.\<close>

definition histogram :: "nat list list \<Rightarrow> nat list" where
  "histogram bw =
     map (\<lambda>x. sum_list (map (\<lambda>row. row ! x) (drop (n_rows bw div 2) bw))) [0..<n_cols bw]"

text \<open>\<open>np.argmax\<close>: the first index of the largest entry; ValueError on an empty array.\<close>

definition np_argmax :: "nat list \<Rightarrow> error + nat" where
  "np_argmax xs =
     (case xs of
        [] \<Rightarrow> Inl ValueError
      | x # r \<Rightarrow> Inr (length (takeWhile (\<lambda>v. v \<noteq> fold max r x) xs)))"

text \<open>
  \<open>binary_warped.nonzero()\<close>: the coordinates \<open>(y, x)\<close> of the non-zero pixels, row by row.
  \<open>nonzeroy\<close> and \<open>nonzerox\<close> are its two components.
\<close>

definition nonzero :: "nat list list \<Rightarrow> (nat \<times> nat) list" where
  "nonzero bw =
     concat (map (\<lambda>y. map (\<lambda>x. (y, x)) (filter (\<lambda>x. bw ! y ! x \<noteq> 0) [0..<length (bw ! y)]))
                 [0..<length bw])"

text \<open>
  The indices (into \<open>nonzeroy\<close>/\<open>nonzerox\<close>) of the pixels inside one window:
  \<open>win_y_low \<le> y < win_y_high\<close> and \<open>win_x_low \<le> x < win_x_high\<close>.
\<close>

definition good_inds :: "nat list \<Rightarrow> nat list \<Rightarrow> int \<Rightarrow> int \<Rightarrow> int \<Rightarrow> int \<Rightarrow> nat list" where
  "good_inds nonzeroy nonzerox win_y_low win_y_high win_x_low win_x_high =
     filter (\<lambda>i. int (nonzeroy ! i) \<ge> win_y_low \<and> int (nonzeroy ! i) < win_y_high
                \<and> int (nonzerox ! i) \<ge> win_x_low \<and> int (nonzerox ! i) < win_x_high)
            [0..<length nonzeroy]"

text \<open>
  \<open>np.int(np.mean(nonzerox[inds]))\<close>: the mean of the selected columns, truncated to an
  integer. The columns are non-negative, so truncation is the integer quotient.
\<close>

definition mean_position :: "nat list \<Rightarrow> nat list \<Rightarrow> int" where
  "mean_position nonzerox inds = int (sum_list (map (\<lambda>i. nonzerox ! i) inds) div length inds)"

text \<open>
  One pass of the loop body for band \<open>window\<close>. The loop state is the two current centres
  and the two lists of index arrays collected so far.
\<close>

type_synonym search_state = "int \<times> int \<times> nat list list \<times> nat list list"

definition window_step ::
  "int \<Rightarrow> nat \<Rightarrow> nat \<Rightarrow> nat \<Rightarrow> nat list \<Rightarrow> nat list \<Rightarrow> nat \<Rightarrow> search_state \<Rightarrow> search_state" where
  "window_step margin minpix H window_height nonzeroy nonzerox window st =
     (case st of (leftx_current, rightx_current, left_lane_inds, right_lane_inds) \<Rightarrow>
        (let win_y_low = int H - (int window + 1) * int window_height;
             win_y_high = int H - int window * int window_height;
             win_xleft_low = leftx_current - margin;
             win_xleft_high = leftx_current + margin;
             win_xright_low = rightx_current - margin;
             win_xright_high = rightx_current + margin;
             good_left_inds =
               good_inds nonzeroy nonzerox win_y_low win_y_high win_xleft_low win_xleft_high;
             good_right_inds =
               good_inds nonzeroy nonzerox win_y_low win_y_high win_xright_low win_xright_high
         in ((if length good_left_inds > minpix
              then mean_position nonzerox good_left_inds else leftx_current),
             (if length good_right_inds > minpix
              then mean_position nonzerox good_right_inds else rightx_current),
             left_lane_inds @ [good_left_inds],
             right_lane_inds @ [good_right_inds])))"

text \<open>
  The search as a whole: histogram seeds, the loop over \<open>range(nwindows)\<close>, and the pixel
  positions \<open>(leftx, lefty, rightx, righty)\<close> of the two clusters. \<open>shape[0]/nwindows\<close> on
  Python integers raises ZeroDivisionError for \<open>nwindows = 0\<close>. Drawing on \<open>out_img\<close> has no
  effect on the search and is left out.
\<close>

definition window_search ::
  "nat \<Rightarrow> int \<Rightarrow> nat \<Rightarrow> nat list list
     \<Rightarrow> error + (nat list \<times> nat list \<times> nat list \<times> nat list)" where
  "window_search nwindows margin minpix binary_warped =
     (let hist = histogram binary_warped;
          midpoint = length hist div 2
      in case np_argmax (take midpoint hist) of
           Inl e \<Rightarrow> Inl e
         | Inr leftx_base \<Rightarrow>
             (case np_argmax (drop midpoint hist) of
                Inl e \<Rightarrow> Inl e
              | Inr r \<Rightarrow>
                  (if nwindows = 0 then Inl ZeroDivisionError
                   else
                     (let rightx_base = r + midpoint;
                          H = n_rows binary_warped;
                          window_height = H div nwindows;
                          nonzeroy = map fst (nonzero binary_warped);
                          nonzerox = map snd (nonzero binary_warped);
                          st = fold (window_step margin minpix H window_height nonzeroy nonzerox)
                                    [0..<nwindows]
                                    (int leftx_base, int rightx_base, [], []);
                          left_lane_inds = concat (fst (snd (snd st)));
                          right_lane_inds = concat (snd (snd (snd st)))
                      in Inr (map (\<lambda>i. nonzerox ! i) left_lane_inds,
                              map (\<lambda>i. nonzeroy ! i) left_lane_inds,
                              map (\<lambda>i. nonzerox ! i) right_lane_inds,
                              map (\<lambda>i. nonzeroy ! i) right_lane_inds)))))"

section \<open>find_lanes: fitting, tracking and the reported metrics\<close>

text \<open>
  \<open>np.polyfit(y, x, 2)\<close> is numpy's. Of its argument checks only one can fail here: it
  raises TypeError (``expected non-empty vector for x'') on an empty first argument. Any other
  input, also one with fewer than three points, goes to the least-squares routine, which
  returns the three coefficients (with a RankWarning when the system is rank deficient) or
  raises LinAlgError. That routine is not part of this repository and is a parameter
  \<open>lstsq\<close> of the model.
\<close>

type_synonym solver = "real list \<Rightarrow> real list \<Rightarrow> error + fit"

definition polyfit :: "solver \<Rightarrow> real list \<Rightarrow> real list \<Rightarrow> error + fit" where
  "polyfit lstsq y x = (if y = [] then Inl TypeError else lstsq y x)"

text \<open>
  The radius of curvature of a world-space fit: one expression, one division, no test of the
  divisor.
\<close>

definition curverad :: "fit \<Rightarrow> real \<Rightarrow> npfloat" where
  "curverad fit_cr y_eval =
     (case fit_cr of (a, b, c) \<Rightarrow>
        np_divide ((1 + (2 * a * y_eval * ym_per_pix + b) ^ 2) powr 1.5) \<bar>2 * a\<bar>)"

text \<open>
  \<open>round(curverad/1000)\<close>, the number of kilometres put into the text written on the frame.
  An infinity or nan divided by 1000 is itself. Python's \<open>round\<close> of a float gives an integer,
  rounding halves to the even neighbour; it raises OverflowError on an infinity and ValueError
  on nan.
\<close>

definition py_round :: "real \<Rightarrow> int" where
  "py_round r =
     (let f = \<lfloor>r\<rfloor>; d = r - of_int f
      in if d < 1 / 2 then f else if 1 / 2 < d then f + 1 else if even f then f else f + 1)"

definition round_km :: "npfloat \<Rightarrow> error + int" where
  "round_km q =
     (case q of
        Finite r \<Rightarrow> Inr (py_round (r / 1000))
      | DivByZero x \<Rightarrow> (if x = 0 then Inl ValueError else Inl OverflowError))"

text \<open>
  The reported offset. \<open>image_size[1]\<close> is the number of rows of the module-level image
  \<open>img\<close>, not of the mask; it is the argument \<open>img_rows\<close>.
\<close>

definition lane_offset :: "nat \<Rightarrow> real list \<Rightarrow> real list \<Rightarrow> error + real" where
  "lane_offset img_rows left_fitx right_fitx =
     (case np_index left_fitx (int img_rows - 1) of
        Inl e \<Rightarrow> Inl e
      | Inr lx \<Rightarrow>
          (case np_index right_fitx (int img_rows - 1) of
             Inl e \<Rightarrow> Inl e
           | Inr rx \<Rightarrow>
               (let lane_center = (lx + rx) / 2.0;
                    image_center = 1280 / 2.0
                in Inr ((lane_center - image_center) * xm_per_pix))))"

text \<open>
  Everything after the search: the four fits, the sampled curves, the two lane updates (right
  first), the radii, the offset, and the two roundings for the text of the left and of the
  right radius, in this order. The state is the pair of module-level lanes \<open>(left, right)\<close>;
  the result is the new pair with the radii, the kilometres written on the frame and the
  offset. An exception leaves \<open>find_lanes\<close> (nothing in the notebook catches one) and is the
  result \<open>Inl\<close>. Drawing and the inverse warp are outside the model.
\<close>

record metrics =
  left_curverad :: npfloat
  right_curverad :: npfloat
  left_km :: int
  right_km :: int
  offset :: real

definition fit_and_track ::
  "solver \<Rightarrow> nat \<Rightarrow> nat \<Rightarrow> (nat list \<times> nat list \<times> nat list \<times> nat list) \<Rightarrow> Line \<times> Line
     \<Rightarrow> error + (Line \<times> Line \<times> metrics)" where
  "fit_and_track lstsq img_rows H cl lr =
     (case cl of (leftx, lefty, rightx, righty) \<Rightarrow>
     (case lr of (left, right) \<Rightarrow>
     (case polyfit lstsq (map real lefty) (map real leftx) of
        Inl e \<Rightarrow> Inl e
      | Inr left_fit \<Rightarrow>
     (case polyfit lstsq (map real righty) (map real rightx) of
        Inl e \<Rightarrow> Inl e
      | Inr right_fit \<Rightarrow>
     (case polyfit lstsq (map (\<lambda>y. real y * ym_per_pix) lefty)
                         (map (\<lambda>x. real x * xm_per_pix) leftx) of
        Inl e \<Rightarrow> Inl e
      | Inr left_fit_cr \<Rightarrow>
     (case polyfit lstsq (map (\<lambda>y. real y * ym_per_pix) righty)
                         (map (\<lambda>x. real x * xm_per_pix) rightx) of
        Inl e \<Rightarrow> Inl e
      | Inr right_fit_cr \<Rightarrow>
     (let left_fitx = map (polyval left_fit) (ploty H);
          right_fitx = map (polyval right_fit) (ploty H)
      in
     (case np_max (ploty H) of
        Inl e \<Rightarrow> Inl e
      | Inr y_eval \<Rightarrow>
     (case update_right y_eval (ploty H) right_fit right_fitx rightx righty right of
        Inl e \<Rightarrow> Inl e
      | Inr (right1, right_fit1, right_fitx1) \<Rightarrow>
     (case update_left y_eval (ploty H) left_fit left_fitx leftx lefty left of
        Inl e \<Rightarrow> Inl e
      | Inr (left1, left_fit1, left_fitx1) \<Rightarrow>
     (case lane_offset img_rows left_fitx1 right_fitx1 of
        Inl e \<Rightarrow> Inl e
      | Inr pos \<Rightarrow>
     (case round_km (curverad left_fit_cr y_eval) of
        Inl e \<Rightarrow> Inl e
      | Inr lkm \<Rightarrow>
     (case round_km (curverad right_fit_cr y_eval) of
        Inl e \<Rightarrow> Inl e
      | Inr rkm \<Rightarrow>
          Inr (left1\<lparr>radius_of_curvature := Some (curverad left_fit_cr y_eval),
                     line_base_pos := Some pos\<rparr>,
               right1\<lparr>radius_of_curvature := Some (curverad right_fit_cr y_eval),
                      line_base_pos := Some pos\<rparr>,
               \<lparr>left_curverad = curverad left_fit_cr y_eval,
                right_curverad = curverad right_fit_cr y_eval,
                left_km = lkm, right_km = rkm,
                offset = pos\<rparr>))))))))))))))"

definition find_lanes ::
  "solver \<Rightarrow> nat \<Rightarrow> nat \<Rightarrow> int \<Rightarrow> nat \<Rightarrow> nat list list \<Rightarrow> Line \<times> Line
     \<Rightarrow> error + (Line \<times> Line \<times> metrics)" where
  "find_lanes lstsq img_rows nwindows margin minpix binary_warped lr =
     (case window_search nwindows margin minpix binary_warped of
        Inl e \<Rightarrow> Inl e
      | Inr cl \<Rightarrow> fit_and_track lstsq img_rows (n_rows binary_warped) cl lr)"

text \<open>\<open>process_image\<close> calls \<open>find_lanes(binary_warped)\<close> with the default parameters.\<close>

definition process_image ::
  "solver \<Rightarrow> nat \<Rightarrow> nat list list \<Rightarrow> Line \<times> Line \<Rightarrow> error + (Line \<times> Line \<times> metrics)" where
  "process_image lstsq img_rows binary_warped lr =
     find_lanes lstsq img_rows 9 100 50 binary_warped lr"

section \<open>A lane over several frames\<close>

text \<open>
  What successive calls of \<open>find_lanes\<close> do to one of the two lanes when the masks have
  \<open>H\<close> rows: frame by frame, the new fit is sampled at \<open>ploty\<close> and handed to that lane's
  update block. A frame is the fit with the pixel positions of its cluster.
\<close>

datatype side = LeftLane | RightLane

type_synonym frame = "fit \<times> nat list \<times> nat list"

definition update_side :: "side \<Rightarrow> nat \<Rightarrow> frame \<Rightarrow> Line \<Rightarrow> error + (Line \<times> fit \<times> real list)" where
  "update_side s H fr L =
     (case fr of (f, xs, ys) \<Rightarrow>
        (case np_max (ploty H) of
           Inl e \<Rightarrow> Inl e
         | Inr y_eval \<Rightarrow>
             (case s of
                RightLane \<Rightarrow> update_right y_eval (ploty H) f (map (polyval f) (ploty H)) xs ys L
              | LeftLane \<Rightarrow> update_left y_eval (ploty H) f (map (polyval f) (ploty H)) xs ys L)))"

fun track :: "side \<Rightarrow> nat \<Rightarrow> frame list \<Rightarrow> Line \<Rightarrow> error + Line" where
  "track s H [] L = Inr L"
| "track s H (fr # frs) L =
     (case update_side s H fr L of
        Inl e \<Rightarrow> Inl e
      | Inr (L', _, _) \<Rightarrow> track s H frs L')"

text \<open>
  The row at which each side evaluates a new fit for the distance test, and the outcome of
  the acceptance test of a lane with a history (\<open>bestx\<close> set) for a new fit.
\<close>

definition base_row :: "side \<Rightarrow> nat \<Rightarrow> real" where
  "base_row s H = (case s of RightLane \<Rightarrow> real (H - 1) | LeftLane \<Rightarrow> 720)"

definition accepted :: "side \<Rightarrow> nat \<Rightarrow> fit \<Rightarrow> Line \<Rightarrow> bool" where
  "accepted s H f L \<longleftrightarrow>
     (case bestx L of
        None \<Rightarrow> False
      | Some bx \<Rightarrow>
          (case np_sub (map (polyval f) (ploty H)) bx of
             Inl e \<Rightarrow> False
           | Inr d \<Rightarrow> passes (validation_base_pos f (base_row s H))
                             (np_divide (norm2 d) (norm2 bx))))"

text \<open>
  The states the lanes are in between frames: the two deques run in step and within their
  capacity, every stored curve has one sample per row, and a lane with a history has its
  averages set.
\<close>

definition Line_ok :: "nat \<Rightarrow> Line \<Rightarrow> bool" where
  "Line_ok H L \<longleftrightarrow>
     length (recent_xfitted L) = length (recent_fits L)
     \<and> length (recent_fits L) \<le> n_cells
     \<and> list_all (\<lambda>c. length c = H) (recent_xfitted L)
     \<and> (recent_fits L = [] \<or> (best_fit L \<noteq> None
          \<and> (case bestx L of None \<Rightarrow> False | Some bx \<Rightarrow> length bx = H)))"

section \<open>Example inputs\<close>

text \<open>
  A stand-in for the least-squares routine that returns a fixed fit, and a few lanes and masks
  on which the definitions above are evaluated below. The lanes are states of a one-row (or
  two-row) session; the theorems that use them show the frames that lead there.
\<close>

definition const_solver :: "fit \<Rightarrow> solver" where
  "const_solver f y x = Inr f"

definition lane_one :: Line where
  "lane_one =
     \<lparr>detected = True, recent_xfitted = [[600]], bestx = Some [600],
      recent_fits = [(0, 0, 600)], best_fit = Some (0, 0, 600), current_fit = Some (0, 0, 600),
      radius_of_curvature = None, line_base_pos = None, diffs = [0, 0, 0],
      allx = None, ally = None\<rparr>"

definition lane_two :: Line where
  "lane_two =
     \<lparr>detected = True, recent_xfitted = [[600], [680]], bestx = Some [640],
      recent_fits = [(0, 0, 600), (0, 0, 680)], best_fit = Some (0, 0, 640),
      current_fit = Some (0, 0, 680), radius_of_curvature = None,
      line_base_pos = Some (37 / 150), diffs = [80], allx = Some [], ally = Some []\<rparr>"

definition lane_full :: Line where
  "lane_full =
     \<lparr>detected = True,
      recent_xfitted = [[610], [670], [640], [640], [640], [640], [640], [640], [640], [640],
                        [640], [640], [640], [640], [640]],
      bestx = Some [640],
      recent_fits = [(0, 0, 610), (0, 0, 670), (0, 0, 640), (0, 0, 640), (0, 0, 640),
                     (0, 0, 640), (0, 0, 640), (0, 0, 640), (0, 0, 640), (0, 0, 640),
                     (0, 0, 640), (0, 0, 640), (0, 0, 640), (0, 0, 640), (0, 0, 640)],
      best_fit = Some (0, 0, 640), current_fit = Some (0, 0, 640),
      radius_of_curvature = None, line_base_pos = Some 0, diffs = [0],
      allx = Some [], ally = Some []\<rparr>"

definition lane_far :: Line where
  "lane_far =
     \<lparr>detected = True, recent_xfitted = [[1140, 1140]], bestx = Some [1140, 1140],
      recent_fits = [(0, 0, 1140)], best_fit = Some (0, 0, 1140),
      current_fit = Some (0, 0, 1140), radius_of_curvature = None, line_base_pos = None,
      diffs = [0, 0, 0], allx = None, ally = None\<rparr>"

text \<open>
  A least-squares routine for the examples, in exact arithmetic. When the normal equations of
  the quadratic fit are regular (at least three distinct rows) the least-squares fit is their
  solution, written out by Cramer's rule; on two points with distinct rows polyfit's
  rank-deficient system has the solution of least norm in the column-scaled coefficients.
  These are the only calls the examples make; elsewhere \<open>exact_solver\<close> is a stand-in.
\<close>

definition det3 ::
  "real \<Rightarrow> real \<Rightarrow> real \<Rightarrow> real \<Rightarrow> real \<Rightarrow> real \<Rightarrow> real \<Rightarrow> real \<Rightarrow> real \<Rightarrow> real" where
  "det3 a b c d e f g h i = a * (e * i - f * h) - b * (d * i - f * g) + c * (d * h - e * g)"

definition moment :: "nat \<Rightarrow> real list \<Rightarrow> real list \<Rightarrow> real" where
  "moment k y x = sum_list (map2 (\<lambda>v u. u * v ^ k) y x)"

definition normal_det :: "real list \<Rightarrow> real" where
  "normal_det y =
     (let one = map (\<lambda>v. 1) y;
          s0 = moment 0 y one; s1 = moment 1 y one; s2 = moment 2 y one;
          s3 = moment 3 y one; s4 = moment 4 y one
      in det3 s4 s3 s2 s3 s2 s1 s2 s1 s0)"

definition normal_fit :: "real list \<Rightarrow> real list \<Rightarrow> fit" where
  "normal_fit y x =
     (let one = map (\<lambda>v. 1) y;
          s0 = moment 0 y one; s1 = moment 1 y one; s2 = moment 2 y one;
          s3 = moment 3 y one; s4 = moment 4 y one;
          t0 = moment 0 y x; t1 = moment 1 y x; t2 = moment 2 y x
      in (det3 t2 s3 s2 t1 s2 s1 t0 s1 s0 / normal_det y,
          det3 s4 t2 s2 s3 t1 s1 s2 t0 s0 / normal_det y,
          det3 s4 s3 t2 s3 s2 t1 s2 s1 t0 / normal_det y))"

definition least_norm2 :: "real \<Rightarrow> real \<Rightarrow> real \<Rightarrow> real \<Rightarrow> fit" where
  "least_norm2 y0 y1 x0 x1 =
     (let s1 = y0 ^ 4 + y1 ^ 4; s2 = y0 ^ 2 + y1 ^ 2;
          g00 = y0 ^ 4 / s1 + y0 ^ 2 / s2 + 1 / 2;
          g01 = y0 ^ 2 * y1 ^ 2 / s1 + y0 * y1 / s2 + 1 / 2;
          g11 = y1 ^ 4 / s1 + y1 ^ 2 / s2 + 1 / 2;
          det = g00 * g11 - g01 * g01;
          l0 = (g11 * x0 - g01 * x1) / det;
          l1 = (g00 * x1 - g01 * x0) / det
      in ((l0 * y0 ^ 2 + l1 * y1 ^ 2) / s1, (l0 * y0 + l1 * y1) / s2, (l0 + l1) / 2))"

definition exact_solver :: solver where
  "exact_solver y x =
     (if length x = length y \<and> normal_det y \<noteq> 0 then Inr (normal_fit y x)
      else if length y = 2 \<and> length x = 2 \<and> distinct y
      then Inr (least_norm2 (y ! 0) (y ! 1) (x ! 0) (x ! 1))
      else Inl LinAlgError)"


definition mask_short :: "nat list list" where
  "mask_short = [[0, 1, 0, 0, 0, 1, 0, 0],
                 [1, 0, 0, 0, 1, 0, 0, 0],
                 [0, 0, 0, 0, 0, 1, 0, 0]]"


section \<open>Basic facts about the helpers\<close>

lemma np_max_ploty: "0 < H \<Longrightarrow> np_max (ploty H) = Inr (real (H - 1))"
proof -
  have f: "fold max (map real [Suc 0..<n]) 0 = real (n - 1)" for n
    by (induction n) (auto simp: max_def)
  assume "0 < H"
  then have "[0..<H] = 0 # [Suc 0..<H]" by (simp add: upt_conv_Cons)
  then show ?thesis by (simp add: np_max_def ploty_def f)
qed

lemma length_deque_append: "length d \<le> m \<Longrightarrow> length (deque_append m d x) \<le> m"
  by (auto simp: deque_append_def Let_def)

lemma length_deque_append_eq:
  "length d = length e \<Longrightarrow> length (deque_append m d x) = length (deque_append m e y)"
  by (simp add: deque_append_def Let_def)

lemma deque_append_full: "length d = m \<Longrightarrow> 0 < m \<Longrightarrow> deque_append m d x = tl d @ [x]"
  by (cases d) (auto simp: deque_append_def Let_def)

lemma deque_append_nonempty: "0 < m \<Longrightarrow> deque_append m d x \<noteq> []"
  by (cases d) (auto simp: deque_append_def Let_def)

lemma list_all_deque_append:
  "list_all P d \<Longrightarrow> P x \<Longrightarrow> list_all P (deque_append m d x)"
  by (cases d) (auto simp: deque_append_def Let_def)

lemma deque_pop_nonempty: "d \<noteq> [] \<Longrightarrow> deque_pop d = Inr (butlast d)"
  by (cases d) (simp_all add: deque_pop_def)

lemma length_average_curves:
  "rows \<noteq> [] \<Longrightarrow> list_all (\<lambda>c. length c = H) rows \<Longrightarrow> length (average_curves rows) = H"
  by (cases rows) (simp_all add: average_curves_def)

lemma list_all_butlast: "list_all P d \<Longrightarrow> list_all P (butlast d)"
  by (auto simp: list_all_iff dest: in_set_butlastD)

lemma list_all_last_n: "list_all P d \<Longrightarrow> list_all P (last_n k d)"
  by (auto simp: list_all_iff last_n_def dest: in_set_dropD)

lemma last_n_nonempty: "0 < k \<Longrightarrow> d \<noteq> [] \<Longrightarrow> last_n k d \<noteq> []"
  by (cases d) (auto simp: last_n_def)

lemma np_sub_same_length: "length xs = length ys \<Longrightarrow> np_sub xs ys = Inr (map2 (\<lambda>x y. x - y) xs ys)"
  by (simp add: np_sub_def)

lemma update_side_seed:
  assumes "recent_fits L = []" "0 < H"
  shows "update_side s H (f, xs, ys) L
         = Inr (seed_line f (map (polyval f) (ploty H)) L, f, map (polyval f) (ploty H))"
  using assms
  by (cases s) (simp_all add: update_side_def np_max_ploty update_right_def update_left_def update_line_def)

lemma update_side_tracking:
  assumes ok: "Line_ok H L" and ne: "recent_fits L \<noteq> []" and H: "0 < H"
  shows "update_side s H (f, xs, ys) L =
     (case (if accepted s H f L
            then Inr (accept_line f (map (polyval f) (ploty H))
                   (L\<lparr>line_base_pos := Some (validation_base_pos f (base_row s H)),
                      diffs := map2 (\<lambda>x y. x - y) (map (polyval f) (ploty H)) (the (bestx L))\<rparr>))
            else reject_line
                   (L\<lparr>line_base_pos := Some (validation_base_pos f (base_row s H)),
                      diffs := map2 (\<lambda>x y. x - y) (map (polyval f) (ploty H)) (the (bestx L))\<rparr>)) of
        Inl e \<Rightarrow> Inl e
      | Inr L2 \<Rightarrow>
          (case best_fit L2 of
             None \<Rightarrow> Inl TypeError
           | Some bf \<Rightarrow> Inr (L2\<lparr>allx := Some xs, ally := Some ys\<rparr>, bf, map (polyval bf) (ploty H))))"
proof -
  from ok ne obtain bx where bx: "bestx L = Some bx" "length bx = H"
    by (auto simp: Line_ok_def split: option.splits)
  have sub: "np_sub (map (polyval f) (ploty H)) bx
             = Inr (map2 (\<lambda>x y. x - y) (map (polyval f) (ploty H)) bx)"
    by (rule np_sub_same_length) (simp add: bx ploty_def)
  show ?thesis
    using ne H
    by (cases s)
       (simp_all add: update_side_def np_max_ploty update_right_def update_left_def
          update_line_def bx sub accepted_def base_row_def Let_def
          split: sum.split)
qed

lemma butlast_empty_iff: "butlast xs = [] \<longleftrightarrow> \<not> Suc 0 < length xs"
  by (cases xs rule: rev_cases) auto

lemma update_side_accept:
  assumes ok: "Line_ok H L" and ne: "recent_fits L \<noteq> []" and H: "0 < H"
    and acc: "accepted s H f L"
  shows "\<exists>L'. update_side s H (f, xs, ys) L
              = Inr (L', average_fits (deque_append n_cells (recent_fits L) f),
                     map (polyval (average_fits (deque_append n_cells (recent_fits L) f))) (ploty H))
           \<and> recent_fits L' = deque_append n_cells (recent_fits L) f
           \<and> recent_xfitted L' = deque_append n_cells (recent_xfitted L) (map (polyval f) (ploty H))
           \<and> best_fit L' = Some (average_fits (recent_fits L'))
           \<and> bestx L' = Some (average_curves (recent_xfitted L'))
           \<and> current_fit L' = Some f \<and> detected L'"
  by (simp add: update_side_tracking [OF ok ne H] acc accept_line_def Let_def)

lemma update_side_reject:
  assumes ok: "Line_ok H L" and ne: "recent_fits L \<noteq> []" and H: "0 < H"
    and rej: "\<not> accepted s H f L"
  shows "\<exists>L'. update_side s H (f, xs, ys) L
                = Inr (L', the (best_fit L'), map (polyval (the (best_fit L'))) (ploty H))
           \<and> best_fit L' \<noteq> None
           \<and> recent_fits L' = butlast (recent_fits L)
           \<and> recent_xfitted L' = butlast (recent_xfitted L)
           \<and> \<not> detected L'
           \<and> (if butlast (recent_fits L) = []
               then best_fit L' = best_fit L \<and> bestx L' = bestx L \<and> current_fit L' = current_fit L
               else best_fit L' = Some (average_fits (last_n n_avg (butlast (recent_fits L))))
                  \<and> bestx L' = Some (average_curves (last_n n_avg (butlast (recent_xfitted L))))
                  \<and> current_fit L' = best_fit L')"
proof -
  from ok ne have xne: "recent_xfitted L \<noteq> []" and bf: "best_fit L \<noteq> None"
    by (auto simp: Line_ok_def)
  then obtain b1 b2 b3 where b: "best_fit L = Some (b1, b2, b3)" by auto
  show ?thesis
  proof (cases "butlast (recent_fits L) = []")
    case True
    then have "\<not> Suc 0 < length (recent_fits L)" by (simp add: butlast_empty_iff)
    with True show ?thesis
      by (simp add: update_side_tracking [OF ok ne H] rej reject_line_def
          deque_pop_nonempty ne xne Let_def b del: split_paired_Ex)
  next
    case False
    then have "Suc 0 < length (recent_fits L)" by (simp add: butlast_empty_iff)
    with False show ?thesis
      by (simp add: update_side_tracking [OF ok ne H] rej reject_line_def
          deque_pop_nonempty ne xne Let_def b del: split_paired_Ex)
  qed
qed

lemma seed_line_ok:
  assumes "recent_fits L = []" "recent_xfitted L = []"
  shows "Line_ok H (seed_line f (map (polyval f) (ploty H)) L)"
  using assms
  by (simp add: Line_ok_def seed_line_def deque_append_def n_cells_def ploty_def)

lemma update_side_ok:
  assumes ok: "Line_ok H L" and H: "0 < H"
  shows "\<exists>L' r. update_side s H fr L = Inr (L', r) \<and> Line_ok H L'"
proof -
  obtain f xs ys where fr: "fr = (f, xs, ys)" by (cases fr) auto
  show ?thesis
  proof (cases "recent_fits L = []")
    case True
    with ok have "recent_xfitted L = []" by (simp add: Line_ok_def)
    with True H show ?thesis
      using seed_line_ok [of L H f] by (simp add: fr update_side_seed del: split_paired_Ex)
  next
    case ne: False
    from ok have len: "length (recent_xfitted L) = length (recent_fits L)"
      and cap: "length (recent_fits L) \<le> n_cells"
      and all: "list_all (\<lambda>c. length c = H) (recent_xfitted L)"
      by (simp_all add: Line_ok_def)
    show ?thesis
    proof (cases "accepted s H f L")
      case True
      from update_side_accept [OF ok ne H True, of xs ys] obtain L' where
        r: "update_side s H (f, xs, ys) L
              = Inr (L', average_fits (deque_append n_cells (recent_fits L) f),
                     map (polyval (average_fits (deque_append n_cells (recent_fits L) f))) (ploty H))"
        and rf: "recent_fits L' = deque_append n_cells (recent_fits L) f"
        and xf: "recent_xfitted L' = deque_append n_cells (recent_xfitted L) (map (polyval f) (ploty H))"
        and bf: "best_fit L' = Some (average_fits (recent_fits L'))"
        and bx: "bestx L' = Some (average_curves (recent_xfitted L'))"
        by blast
      have a: "list_all (\<lambda>c. length c = H) (recent_xfitted L')"
        unfolding xf by (rule list_all_deque_append [OF all]) (simp add: ploty_def)
      have n: "recent_xfitted L' \<noteq> []"
        unfolding xf by (rule deque_append_nonempty) (simp add: n_cells_def)
      have "Line_ok H L'"
        unfolding Line_ok_def
        using a bf bx length_average_curves [OF n a] length_deque_append [OF cap]
          length_deque_append_eq [OF len]
        by (simp add: rf xf)
      with r show ?thesis unfolding fr by blast
    next
      case False
      from update_side_reject [OF ok ne H False, of xs ys] obtain L' r' where
        r: "update_side s H (f, xs, ys) L = Inr (L', r')"
        and bf: "best_fit L' \<noteq> None"
        and rf: "recent_fits L' = butlast (recent_fits L)"
        and xf: "recent_xfitted L' = butlast (recent_xfitted L)"
        and av: "butlast (recent_fits L) \<noteq> [] \<Longrightarrow>
                 bestx L' = Some (average_curves (last_n n_avg (butlast (recent_xfitted L))))"
        by (auto split: if_splits)
      have a: "list_all (\<lambda>c. length c = H) (last_n n_avg (butlast (recent_xfitted L)))"
        by (intro list_all_last_n list_all_butlast all)
      have "Line_ok H L'"
      proof (cases "butlast (recent_fits L) = []")
        case True
        then show ?thesis
          using len list_all_butlast [OF all]
          by (simp add: Line_ok_def rf xf butlast_empty_iff)
      next
        case b: False
        with len have "butlast (recent_xfitted L) \<noteq> []"
          by (metis length_butlast length_0_conv)
        then have n: "last_n n_avg (butlast (recent_xfitted L)) \<noteq> []"
          by (intro last_n_nonempty) (simp_all add: n_avg_def)
        show ?thesis
          unfolding Line_ok_def
          using av [OF b] bf len cap length_average_curves [OF n a] list_all_butlast [OF all]
          by (simp add: rf xf)
      qed
      with r show ?thesis unfolding fr by blast
    qed
  qed
qed

lemma Line_init_ok: "Line_ok H Line_init"
  by (simp add: Line_ok_def Line_init_def)

lemma track_ok:
  assumes "Line_ok H L" "0 < H"
  shows "\<exists>L'. track s H frs L = Inr L' \<and> Line_ok H L'"
  using assms(1)
proof (induction frs arbitrary: L)
  case Nil
  then show ?case by simp
next
  case (Cons fr frs)
  from update_side_ok [OF Cons.prems assms(2), of s fr] obtain L1 r where
    u: "update_side s H fr L = Inr (L1, r)" and ok1: "Line_ok H L1" by blast
  from Cons.IH [OF ok1] u show ?case by (cases r) simp
qed

lemmas eval_defs =
  update_side_def np_max_def ploty_def update_right_def update_left_def update_line_def
  Line_init_def seed_line_def deque_append_def n_cells_def polyval_def np_sub_def passes_def
  validation_base_pos_def np_divide_def np_less_def norm2_def max_distance_def
  max_rel_fitx_def accept_line_def average_fits_def average_curves_def reject_line_def
  deque_pop_def last_n_def n_avg_def

lemma lane_two_ok: "Line_ok 1 lane_two"
  by (simp add: Line_ok_def lane_two_def n_cells_def)

lemma lane_two_rejects: "\<not> accepted RightLane 1 (0, 0, 5000) lane_two"
  by (simp add: accepted_def lane_two_def ploty_def polyval_def np_sub_def passes_def
        validation_base_pos_def base_row_def max_distance_def)

lemma lane_full_ok: "Line_ok 1 lane_full"
  by (simp add: Line_ok_def lane_full_def n_cells_def)

lemma lane_full_accepts: "accepted RightLane 1 (0, 0, 640) lane_full"
  by (simp add: accepted_def lane_full_def ploty_def polyval_def np_sub_def passes_def
        validation_base_pos_def base_row_def max_distance_def max_rel_fitx_def
        np_divide_def np_less_def norm2_def)


lemma fit_and_track_left_empty:
  "fit_and_track lstsq img_rows H (leftx, [], rightx, righty) lr = Inl TypeError"
  by (cases lr) (simp add: fit_and_track_def polyfit_def)

lemma fit_and_track_right_empty:
  "\<exists>e. fit_and_track lstsq img_rows H (leftx, lefty, rightx, []) lr = Inl e"
  by (cases lr) (simp add: fit_and_track_def polyfit_def split: sum.split)

lemma black_mask_search: "window_search 9 100 50 [[0, 0], [0, 0]] = Inr ([], [], [], [])"
  by code_simp

lemma update_line_curve:
  assumes "update_line yb py f (map (polyval f) py) xs ys L = Inr (L', f', fx')"
  shows "best_fit L' = Some f' \<and> fx' = map (polyval f') py"
  using assms
  by (auto simp: update_line_def seed_line_def Let_def
      split: if_splits option.splits sum.splits)

lemma real_sum_list_nat: "real (sum_list (map f xs)) = sum_list (map (\<lambda>x. real (f x)) xs)"
  by (induction xs) simp_all

lemma mean_position_floor:
  "mean_position nonzerox inds
     = \<lfloor>sum_list (map (\<lambda>i. real (nonzerox ! i)) inds) / real (length inds)\<rfloor>"
  by (simp add: mean_position_def floor_divide_of_nat_eq real_sum_list_nat [symmetric])

lemma set_good_inds:
  "set (good_inds nonzeroy nonzerox yl yh xl xh)
     = {i. i < length nonzeroy \<and> yl \<le> int (nonzeroy ! i) \<and> int (nonzeroy ! i) < yh
           \<and> xl \<le> int (nonzerox ! i) \<and> int (nonzerox ! i) < xh}"
  by (auto simp: good_inds_def)

lemma map_nth_fun: "map (\<lambda>i. f (xs ! i)) [0..<length xs] = map f xs"
  by (rule nth_equalityI) auto

lemma upt_51: "[0..<51] = [0..<50] @ [50]"
  using upt_Suc_append [of 0 50] by simp

lemma boundary_left:
  "good_inds [0..<51] (replicate 50 100 @ [200]) 0 51 0 200 = [0..<50]"
proof -
  have "filter (\<lambda>i. int ([0..<51] ! i) < 51 \<and> int ((replicate 50 100 @ [200]) ! i) < 200) [0..<50]
          = [0..<50]"
    by (simp add: filter_id_conv nth_append)
  then show ?thesis
    by (simp add: good_inds_def upt_51 nth_append cong: filter_cong)
qed

lemma boundary_right:
  "good_inds [0..<51] (replicate 50 100 @ [v]) 0 51 900 1100 = []" if "v < 900"
  using that by (auto simp: good_inds_def filter_empty_conv nth_append)

lemma inside_left:
  "good_inds [0..<51] (replicate 50 100 @ [101]) 0 51 (- 50) 150 = [0..<51]"
proof -
  have "filter (\<lambda>i. int ([0..<51] ! i) < 51 \<and> int ((replicate 50 100 @ [101]) ! i) < 150) [0..<51]
          = [0..<51]"
    by (simp add: filter_id_conv nth_append)
  then show ?thesis
    by (simp add: good_inds_def)
qed


lemma short_search:
  "window_search 3 2 50 mask_short = Inr ([0, 1], [1, 0], [5, 4, 5], [2, 1, 0])"
  by code_simp


lemmas solver_defs =
  polyfit_def exact_solver_def normal_fit_def normal_det_def moment_def det3_def
  least_norm2_def Let_def ym_per_pix_def xm_per_pix_def power_divide



lemma short_solver:
  "exact_solver (map real [1, 0]) (map real [0, 1]) = Inr (- (1 / 2), - (1 / 2), 1)"
  "exact_solver (map real [2, 1, 0]) (map real [5, 4, 5]) = Inr (1, - 2, 5)"
  "exact_solver (map (\<lambda>y. real y * ym_per_pix) [1, 0]) (map (\<lambda>x. real x * xm_per_pix) [0, 1])
     = Inr (- (1332 / 875), - (111 / 1750), 37 / 7000)"
  "exact_solver (map (\<lambda>y. real y * ym_per_pix) [2, 1, 0])
     (map (\<lambda>x. real x * xm_per_pix) [5, 4, 5]) = Inr (2664 / 875, - (222 / 875), 37 / 1400)"
  by (simp_all add: solver_defs)


lemma short_rows: "n_rows mask_short = 3"
  by (simp add: n_rows_def mask_short_def)


lemma Line_init_empty: "recent_fits Line_init = []"
  by (simp add: Line_init_def)


lemma update_side_curve:
  assumes "update_side s H (f, xs, ys) L = Inr (L', f', fx')"
  shows "best_fit L' = Some f' \<and> fx' = map (polyval f') (ploty H)"
  using assms update_line_curve
  by (auto simp: update_side_def update_right_def update_left_def
      split: sum.splits side.splits)

lemma update_side_returns:
  assumes "Line_ok H L" and "0 < H"
  shows "\<exists>L' f'. update_side s H (f, xs, ys) L = Inr (L', f', map (polyval f') (ploty H))
            \<and> best_fit L' = Some f' \<and> Line_ok H L'"
proof -
  from update_side_ok [OF assms, of s "(f, xs, ys)"] obtain L' r where
    u: "update_side s H (f, xs, ys) L = Inr (L', r)" and ok: "Line_ok H L'" by blast
  obtain f' fx' where r: "r = (f', fx')" by (cases r) auto
  from update_side_curve [OF u [unfolded r]] u ok show ?thesis unfolding r by blast
qed

lemma np_index_row:
  "0 < k \<Longrightarrow> k \<le> H \<Longrightarrow> np_index (map g (ploty H)) (int k - 1) = Inr (g (real (k - 1)))"
  by (simp add: np_index_def ploty_def Let_def nat_diff_distrib')

lemma lane_offset_row:
  "0 < k \<Longrightarrow> k \<le> H \<Longrightarrow>
     lane_offset k (map (polyval lf) (ploty H)) (map (polyval rf) (ploty H))
       = Inr (((polyval lf (real (k - 1)) + polyval rf (real (k - 1))) / 2 - 640) * (3.7 / 700))"
  by (simp add: lane_offset_def np_index_row xm_per_pix_def)

lemma update_right_side:
  "0 < H \<Longrightarrow> update_right (real (H - 1)) (ploty H) f (map (polyval f) (ploty H)) xs ys L
     = update_side RightLane H (f, xs, ys) L"
  by (simp add: update_side_def np_max_ploty)

lemma update_left_side:
  "0 < H \<Longrightarrow> update_left (real (H - 1)) (ploty H) f (map (polyval f) (ploty H)) xs ys L
     = update_side LeftLane H (f, xs, ys) L"
  by (simp add: update_side_def np_max_ploty)

lemma fit_and_track_run:
  assumes f1: "polyfit lstsq (map real lefty) (map real leftx) = Inr left_fit"
    and f2: "polyfit lstsq (map real righty) (map real rightx) = Inr right_fit"
    and f3: "polyfit lstsq (map (\<lambda>y. real y * ym_per_pix) lefty)
               (map (\<lambda>x. real x * xm_per_pix) leftx) = Inr left_fit_cr"
    and f4: "polyfit lstsq (map (\<lambda>y. real y * ym_per_pix) righty)
               (map (\<lambda>x. real x * xm_per_pix) rightx) = Inr right_fit_cr"
    and okl: "Line_ok H left" and okr: "Line_ok H right"
    and k: "0 < k" "k \<le> H"
  shows "\<exists>left1 right1 lf rf.
      update_side LeftLane H (left_fit, leftx, lefty) left
        = Inr (left1, lf, map (polyval lf) (ploty H))
    \<and> update_side RightLane H (right_fit, rightx, righty) right
        = Inr (right1, rf, map (polyval rf) (ploty H))
    \<and> best_fit left1 = Some lf \<and> best_fit right1 = Some rf
    \<and> fit_and_track lstsq k H (leftx, lefty, rightx, righty) (left, right)
        = (case round_km (curverad left_fit_cr (real (H - 1))) of
             Inl e \<Rightarrow> Inl e
           | Inr lkm \<Rightarrow>
               (case round_km (curverad right_fit_cr (real (H - 1))) of
                  Inl e \<Rightarrow> Inl e
                | Inr rkm \<Rightarrow>
                    Inr (left1\<lparr>radius_of_curvature := Some (curverad left_fit_cr (real (H - 1))),
                           line_base_pos := Some (((polyval lf (real (k - 1))
                              + polyval rf (real (k - 1))) / 2 - 640) * (3.7 / 700))\<rparr>,
                         right1\<lparr>radius_of_curvature := Some (curverad right_fit_cr (real (H - 1))),
                           line_base_pos := Some (((polyval lf (real (k - 1))
                              + polyval rf (real (k - 1))) / 2 - 640) * (3.7 / 700))\<rparr>,
                         \<lparr>left_curverad = curverad left_fit_cr (real (H - 1)),
                          right_curverad = curverad right_fit_cr (real (H - 1)),
                          left_km = lkm, right_km = rkm,
                          offset = ((polyval lf (real (k - 1)) + polyval rf (real (k - 1))) / 2
                                    - 640) * (3.7 / 700)\<rparr>)))"
proof -
  from k have H: "0 < H" by simp
  from update_side_returns [OF okl H, of LeftLane left_fit leftx lefty] obtain left1 lf where
    ul: "update_side LeftLane H (left_fit, leftx, lefty) left
           = Inr (left1, lf, map (polyval lf) (ploty H))"
    and bl: "best_fit left1 = Some lf" by blast
  from update_side_returns [OF okr H, of RightLane right_fit rightx righty] obtain right1 rf where
    ur: "update_side RightLane H (right_fit, rightx, righty) right
           = Inr (right1, rf, map (polyval rf) (ploty H))"
    and br: "best_fit right1 = Some rf" by blast
  have ur': "update_right (real (H - Suc 0)) (ploty H) right_fit
               (map (polyval right_fit) (ploty H)) rightx righty right
             = Inr (right1, rf, map (polyval rf) (ploty H))"
    using ur update_right_side [OF H, of right_fit rightx righty right] by simp
  have ul': "update_left (real (H - Suc 0)) (ploty H) left_fit
               (map (polyval left_fit) (ploty H)) leftx lefty left
             = Inr (left1, lf, map (polyval lf) (ploty H))"
    using ul update_left_side [OF H, of left_fit leftx lefty left] by simp
  have "fit_and_track lstsq k H (leftx, lefty, rightx, righty) (left, right)
        = (case round_km (curverad left_fit_cr (real (H - 1))) of
             Inl e \<Rightarrow> Inl e
           | Inr lkm \<Rightarrow>
               (case round_km (curverad right_fit_cr (real (H - 1))) of
                  Inl e \<Rightarrow> Inl e
                | Inr rkm \<Rightarrow>
                    Inr (left1\<lparr>radius_of_curvature := Some (curverad left_fit_cr (real (H - 1))),
                           line_base_pos := Some (((polyval lf (real (k - 1))
                              + polyval rf (real (k - 1))) / 2 - 640) * (3.7 / 700))\<rparr>,
                         right1\<lparr>radius_of_curvature := Some (curverad right_fit_cr (real (H - 1))),
                           line_base_pos := Some (((polyval lf (real (k - 1))
                              + polyval rf (real (k - 1))) / 2 - 640) * (3.7 / 700))\<rparr>,
                         \<lparr>left_curverad = curverad left_fit_cr (real (H - 1)),
                          right_curverad = curverad right_fit_cr (real (H - 1)),
                          left_km = lkm, right_km = rkm,
                          offset = ((polyval lf (real (k - 1)) + polyval rf (real (k - 1))) / 2
                                    - 640) * (3.7 / 700)\<rparr>)))"
    using ur' ul'
    by (simp add: fit_and_track_def f1 f2 f3 f4 np_max_ploty [OF H] Let_def
          lane_offset_row [OF k] split: sum.split)
  with ul ur bl br show ?thesis by blast
qed

lemma curverad_curved:
  "a \<noteq> 0 \<Longrightarrow> curverad (a, b, c) y
     = Finite ((1 + (2 * a * (y * ym_per_pix) + b) ^ 2) powr 1.5 / \<bar>2 * a\<bar>)"
  by (simp add: curverad_def np_divide_def mult.assoc)

lemma round_km_curved:
  "a \<noteq> 0 \<Longrightarrow> round_km (curverad (a, b, c) y)
     = Inr (py_round ((1 + (2 * a * (y * ym_per_pix) + b) ^ 2) powr 1.5 / \<bar>2 * a\<bar> / 1000))"
  by (simp add: curverad_curved round_km_def)

lemma round_km_straight: "round_km (curverad (0, b, c) y) = Inl OverflowError"
proof -
  have "0 < 1 + b ^ 2" by (simp add: add_pos_nonneg)
  then have "(1 + b ^ 2) powr 1.5 \<noteq> 0" by simp
  then show ?thesis by (simp add: curverad_def np_divide_def round_km_def)
qed

lemma find_lanes_run:
  assumes s: "window_search nwindows margin minpix bw = Inr (leftx, lefty, rightx, righty)"
    and f1: "polyfit lstsq (map real lefty) (map real leftx) = Inr left_fit"
    and f2: "polyfit lstsq (map real righty) (map real rightx) = Inr right_fit"
    and f3: "polyfit lstsq (map (\<lambda>y. real y * ym_per_pix) lefty)
               (map (\<lambda>x. real x * xm_per_pix) leftx) = Inr (al, bl, cl)"
    and f4: "polyfit lstsq (map (\<lambda>y. real y * ym_per_pix) righty)
               (map (\<lambda>x. real x * xm_per_pix) rightx) = Inr (ar, br, cr)"
    and okl: "Line_ok (n_rows bw) left" and okr: "Line_ok (n_rows bw) right"
    and k: "0 < img_rows" "img_rows \<le> n_rows bw"
  shows "\<exists>left1 right1 lf rf.
      update_side LeftLane (n_rows bw) (left_fit, leftx, lefty) left
        = Inr (left1, lf, map (polyval lf) (ploty (n_rows bw)))
    \<and> update_side RightLane (n_rows bw) (right_fit, rightx, righty) right
        = Inr (right1, rf, map (polyval rf) (ploty (n_rows bw)))
    \<and> best_fit left1 = Some lf \<and> best_fit right1 = Some rf
    \<and> find_lanes lstsq img_rows nwindows margin minpix bw (left, right)
        = (if al = 0 \<or> ar = 0 then Inl OverflowError
           else Inr (left1\<lparr>radius_of_curvature := Some (curverad (al, bl, cl) (real (n_rows bw - 1))),
                       line_base_pos := Some (((polyval lf (real (img_rows - 1))
                          + polyval rf (real (img_rows - 1))) / 2 - 640) * (3.7 / 700))\<rparr>,
                     right1\<lparr>radius_of_curvature := Some (curverad (ar, br, cr) (real (n_rows bw - 1))),
                       line_base_pos := Some (((polyval lf (real (img_rows - 1))
                          + polyval rf (real (img_rows - 1))) / 2 - 640) * (3.7 / 700))\<rparr>,
                     \<lparr>left_curverad = curverad (al, bl, cl) (real (n_rows bw - 1)),
                      right_curverad = curverad (ar, br, cr) (real (n_rows bw - 1)),
                      left_km = py_round ((1 + (2 * al * (real (n_rows bw - 1) * ym_per_pix) + bl) ^ 2)
                                            powr 1.5 / \<bar>2 * al\<bar> / 1000),
                      right_km = py_round ((1 + (2 * ar * (real (n_rows bw - 1) * ym_per_pix) + br) ^ 2)
                                            powr 1.5 / \<bar>2 * ar\<bar> / 1000),
                      offset = ((polyval lf (real (img_rows - 1))
                          + polyval rf (real (img_rows - 1))) / 2 - 640) * (3.7 / 700)\<rparr>))"
proof -
  from fit_and_track_run [OF f1 f2 f3 f4 okl okr k] obtain left1 right1 lf rf where
    ul: "update_side LeftLane (n_rows bw) (left_fit, leftx, lefty) left
        = Inr (left1, lf, map (polyval lf) (ploty (n_rows bw)))"
    and ur: "update_side RightLane (n_rows bw) (right_fit, rightx, righty) right
        = Inr (right1, rf, map (polyval rf) (ploty (n_rows bw)))"
    and b: "best_fit left1 = Some lf" "best_fit right1 = Some rf"
    and r: "fit_and_track lstsq img_rows (n_rows bw) (leftx, lefty, rightx, righty) (left, right)
        = (case round_km (curverad (al, bl, cl) (real (n_rows bw - 1))) of
             Inl e \<Rightarrow> Inl e
           | Inr lkm \<Rightarrow>
               (case round_km (curverad (ar, br, cr) (real (n_rows bw - 1))) of
                  Inl e \<Rightarrow> Inl e
                | Inr rkm \<Rightarrow>
                    Inr (left1\<lparr>radius_of_curvature := Some (curverad (al, bl, cl) (real (n_rows bw - 1))),
                           line_base_pos := Some (((polyval lf (real (img_rows - 1))
                              + polyval rf (real (img_rows - 1))) / 2 - 640) * (3.7 / 700))\<rparr>,
                         right1\<lparr>radius_of_curvature := Some (curverad (ar, br, cr) (real (n_rows bw - 1))),
                           line_base_pos := Some (((polyval lf (real (img_rows - 1))
                              + polyval rf (real (img_rows - 1))) / 2 - 640) * (3.7 / 700))\<rparr>,
                         \<lparr>left_curverad = curverad (al, bl, cl) (real (n_rows bw - 1)),
                          right_curverad = curverad (ar, br, cr) (real (n_rows bw - 1)),
                          left_km = lkm, right_km = rkm,
                          offset = ((polyval lf (real (img_rows - 1)) + polyval rf (real (img_rows - 1))) / 2
                                    - 640) * (3.7 / 700)\<rparr>)))"
    by blast
  have "find_lanes lstsq img_rows nwindows margin minpix bw (left, right)
        = fit_and_track lstsq img_rows (n_rows bw) (leftx, lefty, rightx, righty) (left, right)"
    by (simp add: find_lanes_def s)
  also have "\<dots> = (if al = 0 \<or> ar = 0 then Inl OverflowError
           else Inr (left1\<lparr>radius_of_curvature := Some (curverad (al, bl, cl) (real (n_rows bw - 1))),
                       line_base_pos := Some (((polyval lf (real (img_rows - 1))
                          + polyval rf (real (img_rows - 1))) / 2 - 640) * (3.7 / 700))\<rparr>,
                     right1\<lparr>radius_of_curvature := Some (curverad (ar, br, cr) (real (n_rows bw - 1))),
                       line_base_pos := Some (((polyval lf (real (img_rows - 1))
                          + polyval rf (real (img_rows - 1))) / 2 - 640) * (3.7 / 700))\<rparr>,
                     \<lparr>left_curverad = curverad (al, bl, cl) (real (n_rows bw - 1)),
                      right_curverad = curverad (ar, br, cr) (real (n_rows bw - 1)),
                      left_km = py_round ((1 + (2 * al * (real (n_rows bw - 1) * ym_per_pix) + bl) ^ 2)
                                            powr 1.5 / \<bar>2 * al\<bar> / 1000),
                      right_km = py_round ((1 + (2 * ar * (real (n_rows bw - 1) * ym_per_pix) + br) ^ 2)
                                            powr 1.5 / \<bar>2 * ar\<bar> / 1000),
                      offset = ((polyval lf (real (img_rows - 1))
                          + polyval rf (real (img_rows - 1))) / 2 - 640) * (3.7 / 700)\<rparr>))"
  proof (cases "al = 0")
    case True
    then show ?thesis unfolding r by (simp add: round_km_straight)
  next
    case al: False
    show ?thesis
    proof (cases "ar = 0")
      case True
      then show ?thesis unfolding r by (simp add: round_km_straight round_km_curved [OF al])
    next
      case ar: False
      show ?thesis unfolding r
        using al ar by (simp add: round_km_curved [OF al] round_km_curved [OF ar])
    qed
  qed
  finally show ?thesis using ul ur b by blast
qed

lemma update_side_seeded:
  assumes "update_side s H (f, xs, ys) L = Inr (L1, r)" and "recent_fits L = []" and "0 < H"
  shows "recent_fits L1 = [f] \<and> best_fit L1 = Some f \<and> current_fit L1 = Some f"
  using assms(1) unfolding update_side_seed [OF assms(2,3)]
  by (auto simp: seed_line_def deque_append_def n_cells_def assms(2))

lemma update_side_accepted:
  assumes "update_side s H (f, xs, ys) L = Inr (L1, r)" and "Line_ok H L"
    and "recent_fits L \<noteq> []" and "0 < H" and "accepted s H f L"
  shows "recent_fits L1 = deque_append n_cells (recent_fits L) f \<and> current_fit L1 = Some f"
  using update_side_accept [OF assms(2-5), of xs ys] assms(1) by auto

section \<open>Rejected fits\<close>

text \<open>
  C1, as stated: a rejected fit leaves the history unchanged in length and contents. It does
  not. After the frames with fits \<open>(0, 0, 600)\<close> and \<open>(0, 0, 680)\<close> the right lane holds both
  fits; the fit \<open>(0, 0, 5000)\<close> fails the acceptance test, and afterwards the history is
  \<open>[(0, 0, 600)]\<close>: the reject branch pops the newest entry of both deques.
\<close>

theorem rejection_claim_counterexample:
  "track RightLane 1 [((0, 0, 600), [], []), ((0, 0, 680), [], [])] Line_init = Inr lane_two
   \<and> recent_fits lane_two = [(0, 0, 600), (0, 0, 680)]
   \<and> \<not> accepted RightLane 1 (0, 0, 5000) lane_two
   \<and> map_sum id (recent_fits \<circ> fst) (update_side RightLane 1 ((0, 0, 5000), [], []) lane_two)
       = Inr [(0, 0, 600)]"
proof (intro conjI)
  show "track RightLane 1 [((0, 0, 600), [], []), ((0, 0, 680), [], [])] Line_init = Inr lane_two"
    by (simp add: eval_defs lane_two_def)
  show "recent_fits lane_two = [(0, 0, 600), (0, 0, 680)]"
    by (simp add: lane_two_def)
  show "\<not> accepted RightLane 1 (0, 0, 5000) lane_two"
    by (rule lane_two_rejects)
  show "map_sum id (recent_fits \<circ> fst) (update_side RightLane 1 ((0, 0, 5000), [], []) lane_two)
          = Inr [(0, 0, 600)]"
    by (simp add: eval_defs lane_two_def)
qed

text \<open>
  C1, amended: an update of a lane with a history whose new fit fails the acceptance test
  does not add the new sample; it removes the most recent entry, so that the history is the
  previous one without its last entry, one entry shorter, and \<open>detected\<close> is cleared.
\<close>

theorem rejected_update_drops_newest:
  assumes "Line_ok H L" and "recent_fits L \<noteq> []" and "0 < H" and "\<not> accepted s H f L"
  shows "\<exists>L' r. update_side s H (f, xs, ys) L = Inr (L', r)
           \<and> recent_fits L' = butlast (recent_fits L)
           \<and> recent_xfitted L' = butlast (recent_xfitted L)
           \<and> Suc (length (recent_fits L')) = length (recent_fits L)
           \<and> \<not> detected L'"
proof -
  from update_side_reject [OF assms, of xs ys] obtain L' where
    u: "update_side s H (f, xs, ys) L
       = Inr (L', the (best_fit L'), map (polyval (the (best_fit L'))) (ploty H))"
    and rf: "recent_fits L' = butlast (recent_fits L)"
    and xf: "recent_xfitted L' = butlast (recent_xfitted L)"
    and d: "\<not> detected L'"
    by blast
  from assms(2) have "Suc (length (recent_fits L')) = length (recent_fits L)"
    by (simp add: rf)
  with u rf xf d show ?thesis by blast
qed

text \<open>
  The amended C1 on the lane above.
\<close>

theorem rejected_update_drops_newest_witness:
  "Line_ok 1 lane_two \<and> recent_fits lane_two \<noteq> [] \<and> (0::nat) < 1
   \<and> \<not> accepted RightLane 1 (0, 0, 5000) lane_two
   \<and> (\<exists>L' r. update_side RightLane 1 ((0, 0, 5000), [], []) lane_two = Inr (L', r)
           \<and> recent_fits L' = butlast (recent_fits lane_two)
           \<and> recent_xfitted L' = butlast (recent_xfitted lane_two)
           \<and> Suc (length (recent_fits L')) = length (recent_fits lane_two)
           \<and> \<not> detected L')"
proof -
  have ne: "recent_fits lane_two \<noteq> []" by (simp add: lane_two_def)
  have h: "(0::nat) < 1" by simp
  from rejected_update_drops_newest [OF lane_two_ok ne h lane_two_rejects, of "[]" "[]"]
  show ?thesis using lane_two_ok ne lane_two_rejects by simp
qed




section \<open>The first fit of a lane\<close>

text \<open>
  C3. A lane whose history is empty accepts whatever fit it is given, on either side and
  without looking at the thresholds: the fit and its curve become the only history entry
  and the best and current estimates, and \<open>detected\<close> is set.
\<close>

theorem empty_history_accepts:
  assumes "recent_fits L = []" and "recent_xfitted L = []"
  shows "update_right y_eval py f fx xs ys L
           = Inr (L\<lparr>detected := True, recent_xfitted := [fx], recent_fits := [f],
                    current_fit := Some f, best_fit := Some f, bestx := Some fx\<rparr>, f, fx)
       \<and> update_left y_eval py f fx xs ys L
           = Inr (L\<lparr>detected := True, recent_xfitted := [fx], recent_fits := [f],
                    current_fit := Some f, best_fit := Some f, bestx := Some fx\<rparr>, f, fx)"
  using assms
  by (simp add: update_right_def update_left_def update_line_def seed_line_def
        deque_append_def n_cells_def)

text \<open>
  C3 on a new lane and a fit whose distance value is far beyond \<open>max_distance\<close>.
\<close>

theorem empty_history_accepts_witness:
  "recent_fits Line_init = [] \<and> recent_xfitted Line_init = []
   \<and> \<not> \<bar>validation_base_pos (0, 0, 1590) 1\<bar> \<le> max_distance
   \<and> update_right 1 [0, 1] (0, 0, 1590) [1590, 1590] [] [] Line_init
       = Inr (Line_init\<lparr>detected := True, recent_xfitted := [[1590, 1590]],
                recent_fits := [(0, 0, 1590)], current_fit := Some (0, 0, 1590),
                best_fit := Some (0, 0, 1590), bestx := Some [1590, 1590]\<rparr>,
              (0, 0, 1590), [1590, 1590])
   \<and> update_left 1 [0, 1] (0, 0, 1590) [1590, 1590] [] [] Line_init
       = Inr (Line_init\<lparr>detected := True, recent_xfitted := [[1590, 1590]],
                recent_fits := [(0, 0, 1590)], current_fit := Some (0, 0, 1590),
                best_fit := Some (0, 0, 1590), bestx := Some [1590, 1590]\<rparr>,
              (0, 0, 1590), [1590, 1590])"
proof -
  have e: "recent_fits Line_init = []" "recent_xfitted Line_init = []"
    by (simp_all add: Line_init_def)
  have far: "\<not> \<bar>validation_base_pos (0, 0, 1590) 1\<bar> \<le> max_distance"
    by (simp add: validation_base_pos_def polyval_def max_distance_def)
  show ?thesis
    using e far
      empty_history_accepts [OF e, of 1 "[0, 1]" "(0, 0, 1590)" "[1590, 1590]" "[]" "[]"]
    by simp
qed

section \<open>The distance used by the acceptance test\<close>

text \<open>
  C4 says the distance is \<open>(fit(yBottom) - 640) * xm_per_pix\<close> with \<open>xm_per_pix = 3.7/700\<close>
  and one row \<open>yBottom\<close> for both sides. The update blocks multiply by \<open>3.7/600\<close>, and the
  left block evaluates at the literal row 720 where the right block evaluates at
  \<open>y_eval\<close> (719 for a mask of 720 rows). For the fit \<open>(0, 0, 1140)\<close> the blocks compute
  \<open>37/12\<close>, above \<open>max_distance\<close>, where the stated formula gives \<open>37/14\<close>, below it; for
  \<open>(0, 1, 0)\<close> the two sides compute different values. On a lane seeded with \<open>(0, 0, 1140)\<close>
  the same fit is therefore rejected.
\<close>

theorem validation_base_pos_divergence:
  "base_row RightLane 720 = 719 \<and> base_row LeftLane 720 = 720
   \<and> validation_base_pos (0, 0, 1140) (base_row RightLane 720) = 37 / 12
   \<and> (polyval (0, 0, 1140) (base_row RightLane 720) - 640) * xm_per_pix = 37 / 14
   \<and> 37 / 14 \<le> max_distance \<and> \<not> 37 / 12 \<le> max_distance
   \<and> validation_base_pos (0, 1, 0) (base_row RightLane 720) = 2923 / 6000
   \<and> validation_base_pos (0, 1, 0) (base_row LeftLane 720) = 37 / 75
   \<and> track RightLane 2 [((0, 0, 1140), [], [])] Line_init = Inr lane_far
   \<and> map_sum id (line_base_pos \<circ> fst) (update_side RightLane 2 ((0, 0, 1140), [], []) lane_far)
       = Inr (Some (37 / 12))
   \<and> map_sum id (detected \<circ> fst) (update_side RightLane 2 ((0, 0, 1140), [], []) lane_far)
       = Inr False"
proof (intro conjI)
  show "track RightLane 2 [((0, 0, 1140), [], [])] Line_init = Inr lane_far"
    by (simp add: eval_defs lane_far_def numeral_2_eq_2)
  show "map_sum id (line_base_pos \<circ> fst) (update_side RightLane 2 ((0, 0, 1140), [], []) lane_far)
       = Inr (Some (37 / 12))"
    by (simp add: eval_defs lane_far_def numeral_2_eq_2)
  show "map_sum id (detected \<circ> fst) (update_side RightLane 2 ((0, 0, 1140), [], []) lane_far)
       = Inr False"
    by (simp add: eval_defs lane_far_def numeral_2_eq_2)
qed (simp_all add: base_row_def validation_base_pos_def polyval_def xm_per_pix_def
       max_distance_def)

section \<open>Clusters with too few pixels\<close>

text \<open>
  C5, as stated: with fewer than three points on a side the frame is processed without a
  crash and the lane falls back to its previous estimate. On an all-black mask both clusters
  are empty and \<open>process_image\<close> ends with polyfit's TypeError.
\<close>

theorem black_mask_counterexample:
  "window_search 9 100 50 [[0, 0], [0, 0]] = Inr ([], [], [], [])
   \<and> process_image (const_solver (0, 0, 7)) 2 [[0, 0], [0, 0]] (Line_init, Line_init)
       = Inl TypeError"
  by (simp add: process_image_def find_lanes_def black_mask_search fit_and_track_left_empty)

text \<open>
  C5, amended: when the cluster of a side is empty, an exception leaves \<open>find_lanes\<close>
  (polyfit's TypeError when it is the left side's); there is no fallback. A non-empty cluster
  is never checked for its size, so one with fewer than three points is treated like any
  other: its points go to the least-squares routine; if the routine raises on the left pixel
  fit, that exception leaves \<open>find_lanes\<close>; and when the frame is processed to the end (the
  four fits returned, both world-space fits with \<open>a \<noteq> 0\<close>, lanes in a state between frames,
  \<open>img\<close> with at most as many rows as the mask), the lane is updated with the returned fit
  as with any fit: it seeds an empty history and it is appended when it passes the acceptance
  test. Nothing falls back to the lane's previous estimate.
\<close>

theorem short_cluster_not_checked:
  assumes "window_search nwindows margin minpix bw = Inr (leftx, lefty, rightx, righty)"
  shows "(lefty = [] \<or> righty = [] \<longrightarrow>
            (\<exists>e. find_lanes lstsq img_rows nwindows margin minpix bw lr = Inl e)
          \<and> (lefty = [] \<longrightarrow>
                find_lanes lstsq img_rows nwindows margin minpix bw lr = Inl TypeError))
       \<and> (lefty \<noteq> [] \<and> lstsq (map real lefty) (map real leftx) = Inl e \<longrightarrow>
            find_lanes lstsq img_rows nwindows margin minpix bw lr = Inl e)
       \<and> (lefty \<noteq> [] \<and> righty \<noteq> []
          \<and> lstsq (map real lefty) (map real leftx) = Inr left_fit
          \<and> lstsq (map real righty) (map real rightx) = Inr right_fit
          \<and> lstsq (map (\<lambda>y. real y * ym_per_pix) lefty)
                   (map (\<lambda>x. real x * xm_per_pix) leftx) = Inr (al, bl, cl)
          \<and> lstsq (map (\<lambda>y. real y * ym_per_pix) righty)
                   (map (\<lambda>x. real x * xm_per_pix) rightx) = Inr (ar, br, cr)
          \<and> al \<noteq> 0 \<and> ar \<noteq> 0
          \<and> Line_ok (n_rows bw) left \<and> Line_ok (n_rows bw) right
          \<and> 0 < img_rows \<and> img_rows \<le> n_rows bw \<longrightarrow>
            (\<exists>left1 right1 lr1 rr1 left' right' m.
                update_side LeftLane (n_rows bw) (left_fit, leftx, lefty) left = Inr (left1, lr1)
              \<and> update_side RightLane (n_rows bw) (right_fit, rightx, righty) right
                  = Inr (right1, rr1)
              \<and> find_lanes lstsq img_rows nwindows margin minpix bw (left, right)
                  = Inr (left', right', m)
              \<and> left' = left1\<lparr>radius_of_curvature := Some (left_curverad m),
                                line_base_pos := Some (offset m)\<rparr>
              \<and> right' = right1\<lparr>radius_of_curvature := Some (right_curverad m),
                                  line_base_pos := Some (offset m)\<rparr>
              \<and> (recent_fits left = [] \<longrightarrow>
                    recent_fits left' = [left_fit] \<and> best_fit left' = Some left_fit
                    \<and> current_fit left' = Some left_fit)
              \<and> (recent_fits left \<noteq> [] \<and> accepted LeftLane (n_rows bw) left_fit left \<longrightarrow>
                    recent_fits left' = deque_append n_cells (recent_fits left) left_fit
                    \<and> current_fit left' = Some left_fit)
              \<and> (recent_fits right = [] \<longrightarrow>
                    recent_fits right' = [right_fit] \<and> best_fit right' = Some right_fit
                    \<and> current_fit right' = Some right_fit)
              \<and> (recent_fits right \<noteq> [] \<and> accepted RightLane (n_rows bw) right_fit right \<longrightarrow>
                    recent_fits right' = deque_append n_cells (recent_fits right) right_fit
                    \<and> current_fit right' = Some right_fit)))"
proof (intro conjI impI)
  assume "lefty = [] \<or> righty = []"
  then show "\<exists>e. find_lanes lstsq img_rows nwindows margin minpix bw lr = Inl e"
    using fit_and_track_right_empty [of lstsq img_rows "n_rows bw" leftx lefty rightx lr]
    by (auto simp: find_lanes_def assms fit_and_track_left_empty)
next
  assume "lefty = []"
  then show "find_lanes lstsq img_rows nwindows margin minpix bw lr = Inl TypeError"
    by (simp add: find_lanes_def assms fit_and_track_left_empty)
next
  assume "lefty \<noteq> [] \<and> lstsq (map real lefty) (map real leftx) = Inl e"
  then show "find_lanes lstsq img_rows nwindows margin minpix bw lr = Inl e"
    by (cases lr) (simp add: find_lanes_def assms fit_and_track_def polyfit_def)
next
  assume a: "lefty \<noteq> [] \<and> righty \<noteq> []
          \<and> lstsq (map real lefty) (map real leftx) = Inr left_fit
          \<and> lstsq (map real righty) (map real rightx) = Inr right_fit
          \<and> lstsq (map (\<lambda>y. real y * ym_per_pix) lefty)
                   (map (\<lambda>x. real x * xm_per_pix) leftx) = Inr (al, bl, cl)
          \<and> lstsq (map (\<lambda>y. real y * ym_per_pix) righty)
                   (map (\<lambda>x. real x * xm_per_pix) rightx) = Inr (ar, br, cr)
          \<and> al \<noteq> 0 \<and> ar \<noteq> 0
          \<and> Line_ok (n_rows bw) left \<and> Line_ok (n_rows bw) right
          \<and> 0 < img_rows \<and> img_rows \<le> n_rows bw"
  then have f: "polyfit lstsq (map real lefty) (map real leftx) = Inr left_fit"
      "polyfit lstsq (map real righty) (map real rightx) = Inr right_fit"
      "polyfit lstsq (map (\<lambda>y. real y * ym_per_pix) lefty)
         (map (\<lambda>x. real x * xm_per_pix) leftx) = Inr (al, bl, cl)"
      "polyfit lstsq (map (\<lambda>y. real y * ym_per_pix) righty)
         (map (\<lambda>x. real x * xm_per_pix) rightx) = Inr (ar, br, cr)"
    by (simp_all add: polyfit_def)
  from a have nz: "al \<noteq> 0" "ar \<noteq> 0" and ok: "Line_ok (n_rows bw) left" "Line_ok (n_rows bw) right"
    and k: "0 < img_rows" "img_rows \<le> n_rows bw"
    by simp_all
  from k have H: "0 < n_rows bw" by simp
  from find_lanes_run [OF assms f ok k] nz
  obtain left1 right1 lf rf left' right' m where
    ul: "update_side LeftLane (n_rows bw) (left_fit, leftx, lefty) left
        = Inr (left1, lf, map (polyval lf) (ploty (n_rows bw)))"
    and ur: "update_side RightLane (n_rows bw) (right_fit, rightx, righty) right
        = Inr (right1, rf, map (polyval rf) (ploty (n_rows bw)))"
    and r: "find_lanes lstsq img_rows nwindows margin minpix bw (left, right)
              = Inr (left', right', m)"
    and l': "left' = left1\<lparr>radius_of_curvature := Some (curverad (al, bl, cl) (real (n_rows bw - 1))),
                       line_base_pos := Some (((polyval lf (real (img_rows - 1))
                          + polyval rf (real (img_rows - 1))) / 2 - 640) * (3.7 / 700))\<rparr>"
    and r': "right' = right1\<lparr>radius_of_curvature := Some (curverad (ar, br, cr) (real (n_rows bw - 1))),
                       line_base_pos := Some (((polyval lf (real (img_rows - 1))
                          + polyval rf (real (img_rows - 1))) / 2 - 640) * (3.7 / 700))\<rparr>"
    and m: "left_curverad m = curverad (al, bl, cl) (real (n_rows bw - 1))"
      "right_curverad m = curverad (ar, br, cr) (real (n_rows bw - 1))"
      "offset m = ((polyval lf (real (img_rows - 1)) + polyval rf (real (img_rows - 1))) / 2
                    - 640) * (3.7 / 700)"
    by (auto simp del: split_paired_Ex)
  have e: "left' = left1\<lparr>radius_of_curvature := Some (left_curverad m),
                      line_base_pos := Some (offset m)\<rparr>"
    "right' = right1\<lparr>radius_of_curvature := Some (right_curverad m),
                        line_base_pos := Some (offset m)\<rparr>"
    by (simp_all only: l' r' m)
  have sl: "recent_fits left = [] \<longrightarrow>
                    recent_fits left' = [left_fit] \<and> best_fit left' = Some left_fit
                    \<and> current_fit left' = Some left_fit"
    using update_side_seeded [OF ul _ H] by (simp add: l')
  have sr: "recent_fits right = [] \<longrightarrow>
                    recent_fits right' = [right_fit] \<and> best_fit right' = Some right_fit
                    \<and> current_fit right' = Some right_fit"
    using update_side_seeded [OF ur _ H] by (simp add: r')
  have al: "recent_fits left \<noteq> [] \<and> accepted LeftLane (n_rows bw) left_fit left \<longrightarrow>
                    recent_fits left' = deque_append n_cells (recent_fits left) left_fit
                    \<and> current_fit left' = Some left_fit"
    using update_side_accepted [OF ul ok(1) _ H] by (simp add: l')
  have ar: "recent_fits right \<noteq> [] \<and> accepted RightLane (n_rows bw) right_fit right \<longrightarrow>
                    recent_fits right' = deque_append n_cells (recent_fits right) right_fit
                    \<and> current_fit right' = Some right_fit"
    using update_side_accepted [OF ur ok(2) _ H] by (simp add: r')
  from ul ur r e sl sr al ar
  show "\<exists>left1 right1 lr1 rr1 left' right' m.
                update_side LeftLane (n_rows bw) (left_fit, leftx, lefty) left = Inr (left1, lr1)
              \<and> update_side RightLane (n_rows bw) (right_fit, rightx, righty) right
                  = Inr (right1, rr1)
              \<and> find_lanes lstsq img_rows nwindows margin minpix bw (left, right)
                  = Inr (left', right', m)
              \<and> left' = left1\<lparr>radius_of_curvature := Some (left_curverad m),
                                line_base_pos := Some (offset m)\<rparr>
              \<and> right' = right1\<lparr>radius_of_curvature := Some (right_curverad m),
                                  line_base_pos := Some (offset m)\<rparr>
              \<and> (recent_fits left = [] \<longrightarrow>
                    recent_fits left' = [left_fit] \<and> best_fit left' = Some left_fit
                    \<and> current_fit left' = Some left_fit)
              \<and> (recent_fits left \<noteq> [] \<and> accepted LeftLane (n_rows bw) left_fit left \<longrightarrow>
                    recent_fits left' = deque_append n_cells (recent_fits left) left_fit
                    \<and> current_fit left' = Some left_fit)
              \<and> (recent_fits right = [] \<longrightarrow>
                    recent_fits right' = [right_fit] \<and> best_fit right' = Some right_fit
                    \<and> current_fit right' = Some right_fit)
              \<and> (recent_fits right \<noteq> [] \<and> accepted RightLane (n_rows bw) right_fit right \<longrightarrow>
                    recent_fits right' = deque_append n_cells (recent_fits right) right_fit
                    \<and> current_fit right' = Some right_fit)"
    by blast
qed

text \<open>
  The amended C5 on a mask whose left cluster has two points, \<open>(0, 1)\<close> and \<open>(1, 0)\<close> as
  \<open>(row, column)\<close>: their fit \<open>(-1/2, -1/2, 1)\<close> becomes the history and the best fit of the
  new left lane. And on the all-black mask.
\<close>

theorem short_cluster_not_checked_witness:
  "window_search 3 2 50 mask_short = Inr ([0, 1], [1, 0], [5, 4, 5], [2, 1, 0])
   \<and> length [1, 0 :: nat] = 2
   \<and> exact_solver (map real [1, 0]) (map real [0, 1]) = Inr (- (1 / 2), - (1 / 2), 1)
   \<and> Line_ok (n_rows mask_short) Line_init \<and> recent_fits Line_init = []
   \<and> (\<exists>left' right' m.
          find_lanes exact_solver 3 3 2 50 mask_short (Line_init, Line_init)
            = Inr (left', right', m)
        \<and> recent_fits left' = [(- (1 / 2), - (1 / 2), 1)]
        \<and> best_fit left' = Some (- (1 / 2), - (1 / 2), 1)
        \<and> current_fit left' = Some (- (1 / 2), - (1 / 2), 1))
   \<and> window_search 9 100 50 [[0, 0], [0, 0]] = Inr ([], [], [], [])
   \<and> find_lanes exact_solver 2 9 100 50 [[0, 0], [0, 0]] (Line_init, Line_init) = Inl TypeError"
proof -
  have hyp: "[1, 0 :: nat] \<noteq> [] \<and> [2, 1, 0 :: nat] \<noteq> []
          \<and> exact_solver (map real [1, 0]) (map real [0, 1]) = Inr (- (1 / 2), - (1 / 2), 1)
          \<and> exact_solver (map real [2, 1, 0]) (map real [5, 4, 5]) = Inr (1, - 2, 5)
          \<and> exact_solver (map (\<lambda>y. real y * ym_per_pix) [1, 0])
                   (map (\<lambda>x. real x * xm_per_pix) [0, 1])
               = Inr (- (1332 / 875), - (111 / 1750), 37 / 7000)
          \<and> exact_solver (map (\<lambda>y. real y * ym_per_pix) [2, 1, 0])
                   (map (\<lambda>x. real x * xm_per_pix) [5, 4, 5])
               = Inr (2664 / 875, - (222 / 875), 37 / 1400)
          \<and> (- (1332 / 875) :: real) \<noteq> 0 \<and> (2664 / 875 :: real) \<noteq> 0
          \<and> Line_ok (n_rows mask_short) Line_init \<and> Line_ok (n_rows mask_short) Line_init
          \<and> (0::nat) < 3 \<and> 3 \<le> n_rows mask_short"
    using short_solver Line_init_ok [of "n_rows mask_short"]
    by (intro conjI) (simp_all add: short_rows)
  from short_cluster_not_checked [OF short_search, THEN conjunct2, THEN conjunct2, rule_format,
      OF hyp]
  obtain left' right' m where
    "find_lanes exact_solver 3 3 2 50 mask_short (Line_init, Line_init) = Inr (left', right', m)"
    "recent_fits Line_init = [] \<longrightarrow>
       recent_fits left' = [(- (1 / 2), - (1 / 2), 1)]
       \<and> best_fit left' = Some (- (1 / 2), - (1 / 2), 1)
       \<and> current_fit left' = Some (- (1 / 2), - (1 / 2), 1)"
    by blast
  then have short: "\<exists>left' right' m.
          find_lanes exact_solver 3 3 2 50 mask_short (Line_init, Line_init)
            = Inr (left', right', m)
        \<and> recent_fits left' = [(- (1 / 2), - (1 / 2), 1)]
        \<and> best_fit left' = Some (- (1 / 2), - (1 / 2), 1)
        \<and> current_fit left' = Some (- (1 / 2), - (1 / 2), 1)"
    using Line_init_empty by blast
  from short_cluster_not_checked [OF black_mask_search, THEN conjunct1, rule_format,
      of exact_solver 2 "(Line_init, Line_init)"]
  have black: "find_lanes exact_solver 2 9 100 50 [[0, 0], [0, 0]] (Line_init, Line_init)
                 = Inl TypeError"
    by simp
  from short_search short_solver(1) Line_init_ok [of "n_rows mask_short"] Line_init_empty
    short black black_mask_search
  show ?thesis by simp
qed

section \<open>The radius of curvature\<close>




section \<open>The bounded history\<close>

text \<open>
  C7. Whatever frames a new lane is given, on either side, every one of them is processed
  and the history never holds more than 15 entries; and when a fit is accepted by a lane
  whose history holds 15 entries, the oldest entry is dropped and the new one added at the
  end.
\<close>

theorem history_bounded:
  assumes "0 < H"
  shows "(\<exists>L. track s H frs Line_init = Inr L
              \<and> length (recent_fits L) \<le> 15 \<and> length (recent_xfitted L) \<le> 15)
       \<and> (Line_ok H L \<and> length (recent_fits L) = 15 \<and> accepted s H f L \<longrightarrow>
            (\<exists>L' r. update_side s H (f, xs, ys) L = Inr (L', r)
                \<and> recent_fits L' = tl (recent_fits L) @ [f]
                \<and> recent_xfitted L' = tl (recent_xfitted L) @ [map (polyval f) (ploty H)]
                \<and> length (recent_fits L') = 15))"
proof (intro conjI impI)
  from track_ok [OF Line_init_ok assms, of s frs] obtain L where
    "track s H frs Line_init = Inr L" "Line_ok H L" by blast
  then show "\<exists>L. track s H frs Line_init = Inr L
              \<and> length (recent_fits L) \<le> 15 \<and> length (recent_xfitted L) \<le> 15"
    by (auto simp: Line_ok_def n_cells_def)
next
  assume a: "Line_ok H L \<and> length (recent_fits L) = 15 \<and> accepted s H f L"
  then have ok: "Line_ok H L" and full: "length (recent_fits L) = n_cells"
    and acc: "accepted s H f L"
    by (simp_all add: n_cells_def)
  from full have ne: "recent_fits L \<noteq> []" by (auto simp: n_cells_def)
  from ok full have xfull: "length (recent_xfitted L) = n_cells" by (simp add: Line_ok_def)
  have pos: "0 < n_cells" by (simp add: n_cells_def)
  from update_side_accept [OF ok ne assms acc, of xs ys] obtain L' where
    u: "update_side s H (f, xs, ys) L
              = Inr (L', average_fits (deque_append n_cells (recent_fits L) f),
                     map (polyval (average_fits (deque_append n_cells (recent_fits L) f))) (ploty H))"
    and rf: "recent_fits L' = deque_append n_cells (recent_fits L) f"
    and xf: "recent_xfitted L' = deque_append n_cells (recent_xfitted L) (map (polyval f) (ploty H))"
    by blast
  have rf': "recent_fits L' = tl (recent_fits L) @ [f]"
    unfolding rf by (rule deque_append_full [OF full pos])
  have xf': "recent_xfitted L' = tl (recent_xfitted L) @ [map (polyval f) (ploty H)]"
    unfolding xf by (rule deque_append_full [OF xfull pos])
  have "length (recent_fits L') = 15"
    using full by (simp add: rf' n_cells_def)
  with u rf' xf'
  show "\<exists>L' r. update_side s H (f, xs, ys) L = Inr (L', r)
                \<and> recent_fits L' = tl (recent_fits L) @ [f]
                \<and> recent_xfitted L' = tl (recent_xfitted L) @ [map (polyval f) (ploty H)]
                \<and> length (recent_fits L') = 15"
    by blast
qed

text \<open>
  C7 on 15 and 16 frames of the right lane: the sixteenth fit is accepted and the first fit,
  \<open>(0, 0, 610)\<close>, leaves the history.
\<close>

theorem history_bounded_witness:
  "(0::nat) < 1
   \<and> track RightLane 1 (((0, 0, 610), [], []) # ((0, 0, 670), [], [])
                          # replicate 13 ((0, 0, 640), [], [])) Line_init = Inr lane_full
   \<and> Line_ok 1 lane_full \<and> length (recent_fits lane_full) = 15
   \<and> accepted RightLane 1 (0, 0, 640) lane_full
   \<and> hd (recent_fits lane_full) = (0, 0, 610)
   \<and> (\<exists>L' r. update_side RightLane 1 ((0, 0, 640), [], []) lane_full = Inr (L', r)
          \<and> recent_fits L' = tl (recent_fits lane_full) @ [(0, 0, 640)]
          \<and> length (recent_fits L') = 15)
   \<and> (\<exists>L. track RightLane 1 (((0, 0, 610), [], []) # ((0, 0, 670), [], [])
                                # replicate 14 ((0, 0, 640), [], [])) Line_init = Inr L
          \<and> length (recent_fits L) \<le> 15 \<and> length (recent_xfitted L) \<le> 15)"
proof -
  have h: "(0::nat) < 1" by simp
  have len: "length (recent_fits lane_full) = 15" by (simp add: lane_full_def)
  have hd: "hd (recent_fits lane_full) = (0, 0, 610)" by (simp add: lane_full_def)
  have run: "track RightLane 1 (((0, 0, 610), [], []) # ((0, 0, 670), [], [])
                          # replicate 13 ((0, 0, 640), [], [])) Line_init = Inr lane_full"
    by (simp add: eval_defs lane_full_def numeral_eq_Suc)
  from history_bounded [OF h, of RightLane
      "((0, 0, 610), [], []) # ((0, 0, 670), [], []) # replicate 14 ((0, 0, 640), [], [])"
      lane_full "(0, 0, 640)" "[]" "[]"]
  show ?thesis using lane_full_ok len lane_full_accepts hd run by blast
qed

section \<open>The reported offset\<close>




section \<open>Recentring the search windows\<close>

text \<open>
  C9, as stated: a side is recentred exactly when more than 50 pixels lie in
  \<open>[current - margin, current + margin]\<close>, and a band that does not recentre contributes
  nothing. Take 51 pixels of one band, 50 in column 100 and one in column 200, with the left
  centre at 100: all 51 lie in \<open>[0, 200]\<close>, yet the centre stays at 100, because the window
  excludes its right edge and so counts 50; and the 50 counted pixels are added to the
  cluster although the centre did not move.
\<close>

theorem window_claim_counterexample:
  "length (replicate 50 100 @ [200 :: nat]) = 51
   \<and> set (replicate 50 100 @ [200 :: nat]) \<subseteq> {100 - 100 .. 100 + 100}
   \<and> window_step 100 50 51 51 [0..<51] (replicate 50 100 @ [200]) 0 (100, 1000, [], [])
       = (100, 1000, [[0..<50]], [[]])"
  by (simp add: window_step_def boundary_left boundary_right)

text \<open>
  C9, amended: in every band and for each side, the pixels collected are those of the band
  with \<open>current - margin \<le> x < current + margin\<close>; the centre for the next band is the mean
  x of the collected pixels, truncated to an integer, if and only if their number exceeds
  \<open>minpix\<close> (50 by default), and is left unchanged otherwise; in both cases the collected
  pixels, none for a band without matches, are added to the side's cluster.
\<close>

theorem window_step_recentering:
  assumes "gl = good_inds nonzeroy nonzerox (int H - (int w + 1) * int wh) (int H - int w * int wh)
                  (lc - margin) (lc + margin)"
    and "gr = good_inds nonzeroy nonzerox (int H - (int w + 1) * int wh) (int H - int w * int wh)
                  (rc - margin) (rc + margin)"
  shows "window_step margin minpix H wh nonzeroy nonzerox w (lc, rc, li, ri)
           = ((if minpix < length gl
               then \<lfloor>sum_list (map (\<lambda>i. real (nonzerox ! i)) gl) / real (length gl)\<rfloor> else lc),
              (if minpix < length gr
               then \<lfloor>sum_list (map (\<lambda>i. real (nonzerox ! i)) gr) / real (length gr)\<rfloor> else rc),
              li @ [gl], ri @ [gr])
       \<and> set gl = {i. i < length nonzeroy
                      \<and> int H - (int w + 1) * int wh \<le> int (nonzeroy ! i)
                      \<and> int (nonzeroy ! i) < int H - int w * int wh
                      \<and> lc - margin \<le> int (nonzerox ! i) \<and> int (nonzerox ! i) < lc + margin}
       \<and> set gr = {i. i < length nonzeroy
                      \<and> int H - (int w + 1) * int wh \<le> int (nonzeroy ! i)
                      \<and> int (nonzeroy ! i) < int H - int w * int wh
                      \<and> rc - margin \<le> int (nonzerox ! i) \<and> int (nonzerox ! i) < rc + margin}"
  unfolding assms set_good_inds
  by (simp add: window_step_def Let_def mean_position_floor)

text \<open>
  The amended C9 on 51 pixels inside the left window: the centre moves from 50 to 100, the
  truncation of \<open>5101 / 51\<close>.
\<close>

theorem window_step_recentering_witness:
  "[0..<51] = good_inds [0..<51] (replicate 50 100 @ [101]) (int 51 - (int 0 + 1) * int 51)
                (int 51 - int 0 * int 51) (50 - 100) (50 + 100)
   \<and> [] = good_inds [0..<51] (replicate 50 100 @ [101]) (int 51 - (int 0 + 1) * int 51)
                (int 51 - int 0 * int 51) (1000 - 100) (1000 + 100)
   \<and> window_step 100 50 51 51 [0..<51] (replicate 50 100 @ [101]) 0 (50, 1000, [], [])
       = (100, 1000, [[0..<51]], [[]])"
proof -
  have l: "[0..<51] = good_inds [0..<51] (replicate 50 100 @ [101]) (int 51 - (int 0 + 1) * int 51)
                (int 51 - int 0 * int 51) (50 - 100) (50 + 100)"
    by (simp add: inside_left)
  have r: "[] = good_inds [0..<51] (replicate 50 100 @ [101]) (int 51 - (int 0 + 1) * int 51)
                (int 51 - int 0 * int 51) (1000 - 100) (1000 + 100)"
    by (simp add: boundary_right)
  have "map (\<lambda>i. real ((replicate 50 100 @ [101]) ! i)) [0..<51]
          = map real (replicate 50 100 @ [101])"
    using map_nth_fun [of real "replicate 50 100 @ [101]"] by simp
  then have s: "sum_list (map (\<lambda>i. real ((replicate 50 100 @ [101]) ! i)) [0..<51]) = 5101"
    by (simp add: sum_list_replicate)
  from window_step_recentering [OF l r, where minpix = 50 and li = "[]" and ri = "[]"]
  show ?thesis using l r by (simp add: s)
qed

section \<open>Rejecting the only entry\<close>

text \<open>
  C10. When an update is rejected by a lane whose history holds exactly one entry, that
  entry is removed and the history is empty, while the best fit, the best curve and the
  current fit keep their values; the next update, whatever its fit, is then the seeding
  case.
\<close>

theorem sole_entry_rejected_then_reseeded:
  assumes "Line_ok H L" and "length (recent_fits L) = 1" and "0 < H"
    and "\<not> accepted s H f L"
  shows "\<exists>L' r. update_side s H (f, xs, ys) L = Inr (L', r)
           \<and> recent_fits L' = [] \<and> recent_xfitted L' = []
           \<and> best_fit L' = best_fit L \<and> bestx L' = bestx L \<and> current_fit L' = current_fit L
           \<and> (\<forall>f2 xs2 ys2. \<exists>L2.
                 update_side s H (f2, xs2, ys2) L' = Inr (L2, f2, map (polyval f2) (ploty H))
                 \<and> recent_fits L2 = [f2] \<and> recent_xfitted L2 = [map (polyval f2) (ploty H)]
                 \<and> best_fit L2 = Some f2 \<and> bestx L2 = Some (map (polyval f2) (ploty H))
                 \<and> current_fit L2 = Some f2 \<and> detected L2)"
proof -
  from assms(2) have ne: "recent_fits L \<noteq> []" by auto
  from assms(2) have b: "butlast (recent_fits L) = []"
    by (simp add: butlast_empty_iff)
  from assms(1,2) have "length (recent_xfitted L) = 1" by (simp add: Line_ok_def)
  then have bx: "butlast (recent_xfitted L) = []" by (simp add: butlast_empty_iff)
  from update_side_reject [OF assms(1) ne assms(3,4), of xs ys] b bx obtain L' where
    u: "update_side s H (f, xs, ys) L
       = Inr (L', the (best_fit L'), map (polyval (the (best_fit L'))) (ploty H))"
    and e: "recent_fits L' = []" "recent_xfitted L' = []"
    and k: "best_fit L' = best_fit L" "bestx L' = bestx L" "current_fit L' = current_fit L"
    by auto
  have "\<exists>L2. update_side s H (f2, xs2, ys2) L' = Inr (L2, f2, map (polyval f2) (ploty H))
          \<and> recent_fits L2 = [f2] \<and> recent_xfitted L2 = [map (polyval f2) (ploty H)]
          \<and> best_fit L2 = Some f2 \<and> bestx L2 = Some (map (polyval f2) (ploty H))
          \<and> current_fit L2 = Some f2 \<and> detected L2" for f2 xs2 ys2
    by (simp add: update_side_seed [OF e(1) assms(3)] seed_line_def e deque_append_def
          n_cells_def)
  with u e k show ?thesis by blast
qed

text \<open>
  C10 on the right lane after one frame.
\<close>

theorem sole_entry_rejected_then_reseeded_witness:
  "track RightLane 1 [((0, 0, 600), [], [])] Line_init = Inr lane_one
   \<and> Line_ok 1 lane_one \<and> length (recent_fits lane_one) = 1 \<and> (0::nat) < 1
   \<and> \<not> accepted RightLane 1 (0, 0, 5000) lane_one
   \<and> (\<exists>L' r. update_side RightLane 1 ((0, 0, 5000), [], []) lane_one = Inr (L', r)
           \<and> recent_fits L' = [] \<and> recent_xfitted L' = []
           \<and> best_fit L' = Some (0, 0, 600) \<and> bestx L' = Some [600]
           \<and> current_fit L' = Some (0, 0, 600)
           \<and> (\<exists>L2. update_side RightLane 1 ((0, 0, 5000), [], []) L'
                        = Inr (L2, (0, 0, 5000), map (polyval (0, 0, 5000)) (ploty 1))
                 \<and> recent_fits L2 = [(0, 0, 5000)] \<and> detected L2))"
proof -
  have ok: "Line_ok 1 lane_one" by (simp add: Line_ok_def lane_one_def n_cells_def)
  have one: "length (recent_fits lane_one) = 1" by (simp add: lane_one_def)
  have h: "(0::nat) < 1" by simp
  have rej: "\<not> accepted RightLane 1 (0, 0, 5000) lane_one"
    by (simp add: accepted_def lane_one_def ploty_def polyval_def np_sub_def passes_def
        validation_base_pos_def base_row_def max_distance_def)
  have v: "best_fit lane_one = Some (0, 0, 600)" "bestx lane_one = Some [600]"
    "current_fit lane_one = Some (0, 0, 600)"
    by (simp_all add: lane_one_def)
  have run: "track RightLane 1 [((0, 0, 600), [], [])] Line_init = Inr lane_one"
    by (simp add: eval_defs lane_one_def)
  from sole_entry_rejected_then_reseeded [OF ok one h rej, of "[]" "[]"]
  show ?thesis using run ok one rej unfolding v by blast
qed

end
